theory Spec2Isabelle
  imports Complex_Main
begin

section \<open>The two pages: JavaScript values and the browser interface\<close>

text \<open>
  The owner page (\<^verbatim>\<open>partD-frontend-owner.js\<close>) and the supplier page are event-driven
  scripts over the DOM and a REST API. Each function of a script becomes a function from
  what it reads (form values, the outcome of its requests, the user's answer to a
  \<^verbatim>\<open>confirm\<close>) and the page's state to the new state. The state records what the script
  can change: its one variable, the parts of the page it writes, and the alerts, console
  lines and network events it produces, in order.

  The scripts write markup through \<^verbatim>\<open>innerHTML\<close> with the interpolated values unescaped.
  Two things are kept apart. What a script writes and never reads back (the orders
  containers, the paragraphs) is held as written: the values that fill the template's
  slots, in order; how the browser parses a slot whose text contains markup is not part of
  the model. What a script reads back from the page (the product rows of the order form,
  through \<^verbatim>\<open>querySelectorAll\<close>, \<^verbatim>\<open>querySelector\<close>, \<^verbatim>\<open>.value\<close> and \<^verbatim>\<open>.dataset\<close>) is held as
  elements: for a product name of plain text these are the elements of the template; for
  any other name they are whatever the browser's HTML parser and selector engine make of
  it, which are parameters. Status classes and the style rules \<^verbatim>\<open>loadAllOrders\<close> adds are
  presentation and are left out, except for the console warning their failure causes.
\<close>

subsection \<open>Numbers, JSON and the builtins\<close>

text \<open>
  A JavaScript number is \<^verbatim>\<open>NaN\<close>, an infinity or a finite value; a finite double is a
  rational. \<^verbatim>\<open>x > c\<close> and \<^verbatim>\<open>x >= c\<close> are false on \<^verbatim>\<open>NaN\<close>.
\<close>

datatype number = NaN | Fin rat | PosInfinity | NegInfinity

definition isNaN :: "number \<Rightarrow> bool" where
  "isNaN x = (x = NaN)"

definition num_gt :: "number \<Rightarrow> rat \<Rightarrow> bool" where
  "num_gt x c = (case x of Fin a \<Rightarrow> c < a | PosInfinity \<Rightarrow> True | _ \<Rightarrow> False)"

definition num_ge :: "number \<Rightarrow> rat \<Rightarrow> bool" where
  "num_ge x c = (case x of Fin a \<Rightarrow> c \<le> a | PosInfinity \<Rightarrow> True | _ \<Rightarrow> False)"

datatype json = JNull | JBool bool | JNumber number | JString string
  | JArray "json list" | JObject "(string \<times> json) list"

text \<open>
  Plain text: printable characters other than the double quote, the ampersand, the
  apostrophe, the angle brackets, the backslash and the backquote. In such text nothing
  ends an HTML attribute value, starts a tag or a character reference, or is an escape or
  the end of a quoted string in a CSS selector.
\<close>

definition plain_char :: "char \<Rightarrow> bool" where
  "plain_char c =
     ((32 \<le> (of_char c :: nat) \<and> (of_char c :: nat) \<le> 126 \<or> 160 \<le> (of_char c :: nat)) \<and>
      c \<notin> set [CHR 0x22, CHR 0x26, CHR 0x27, CHR 0x3C, CHR 0x3E, CHR 0x5C, CHR 0x60])"

definition plain_text :: "string \<Rightarrow> bool" where
  "plain_text s = list_all plain_char s"

text \<open>
  A row of the order form's product list, as the page holds it: the checkbox
  (\<^verbatim>\<open>value\<close>, \<^verbatim>\<open>data-price\<close>, checked or not) and the quantity input (\<^verbatim>\<open>name\<close>, value,
  disabled or not); the row's visible label is left out. What \<^verbatim>\<open>querySelector\<close> yields is
  an element, \<^verbatim>\<open>null\<close>, or a \<^verbatim>\<open>SyntaxError\<close> for a selector that does not parse.
\<close>

record product_order_item =
  checkbox_value :: string
  checkbox_data_price :: string
  checkbox_checked :: bool
  quantity_name :: string
  quantity_value :: string
  quantity_disabled :: bool

datatype 'a query_result = Found 'a | Not_found | Invalid_selector

text \<open>
  The browser's functions; the scripts are modelled for any such functions.
  \<^verbatim>\<open>parseInt\<close>, \<^verbatim>\<open>parseFloat\<close>, number-to-string conversion, \<^verbatim>\<open>toFixed(2)\<close> and
  \<^verbatim>\<open>encodeURIComponent\<close> are JavaScript's. \<^verbatim>\<open>html_product_rows\<close> is the HTML parser on the
  order form's row template filled with a product name that is not plain text (and with the
  two renderings of the price); \<^verbatim>\<open>css_quantity_input\<close> is the selector engine on
  \<^verbatim>\<open>input[name="quantity_..."\<close> finished with such a name.
\<close>

record js_builtins =
  parseInt :: "string \<Rightarrow> number"
  parseFloat :: "string \<Rightarrow> number"
  numberToString :: "rat \<Rightarrow> string"
  toFixed2 :: "rat \<Rightarrow> string"
  encodeURIComponent :: "string \<Rightarrow> string"
  html_product_rows :: "string \<Rightarrow> string \<Rightarrow> string \<Rightarrow> product_order_item list"
  css_quantity_input :: "string \<Rightarrow> product_order_item list \<Rightarrow> product_order_item query_result"

text \<open>
  \<^verbatim>\<open>String.prototype.trim\<close> removes white space and line terminators at both ends; these are
  the ones among the 8-bit characters. \<^verbatim>\<open>a || b\<close> on strings takes \<^verbatim>\<open>b\<close> when \<^verbatim>\<open>a\<close> is
  missing or empty.
\<close>

definition is_space :: "char \<Rightarrow> bool" where
  "is_space c = (c \<in> set [CHR 0x09, CHR 0x0A, CHR 0x0B, CHR 0x0C, CHR 0x0D, CHR '' '', CHR 0xA0])"

definition trim :: "string \<Rightarrow> string" where
  "trim s = rev (dropWhile is_space (rev (dropWhile is_space s)))"

definition or_else :: "string option \<Rightarrow> string \<Rightarrow> string" where
  "or_else v d = (case v of None \<Rightarrow> d | Some x \<Rightarrow> if x = [] then d else x)"

text \<open>\<^verbatim>\<open>Array.prototype.join\<close> on strings.\<close>

fun join_with :: "string \<Rightarrow> string list \<Rightarrow> string" where
  "join_with separator [] = []"
| "join_with separator [x] = x"
| "join_with separator (x # y # zs) = x @ separator @ join_with separator (y # zs)"

subsection \<open>Requests, responses and effects\<close>

text \<open>
  A \<^verbatim>\<open>fetch\<close> either rejects (a network error, with the error's message) or yields a
  response with its status, status text and body; \<^verbatim>\<open>response.ok\<close> is a status from 200 to
  299. The body is \<^verbatim>\<open>Inr\<close> the parsed JSON object, with the fields the script reads and
  their types, or \<^verbatim>\<open>Inl\<close> the message of the exception raised when it cannot be read so
  (\<^verbatim>\<open>response.json()\<close> rejects, or a property read on what it yields throws). The network
  log records when a request is sent and when its response has been read.
\<close>

datatype http_method = GET | POST | PUT

record request =
  req_method :: http_method
  req_url :: string
  req_body :: "json option"

datatype net_event = Issued request | Settled request

datatype 'a fetch_result =
  NetworkError string
  | Response nat string "string + 'a"

definition response_ok :: "nat \<Rightarrow> bool" where
  "response_ok status = (200 \<le> status \<and> status \<le> 299)"

datatype console_entry = Console_error string | Console_warn string

record io =
  alerts :: "string list"
  console :: "console_entry list"
  net :: "net_event list"

definition alert :: "string \<Rightarrow> 'a io_scheme \<Rightarrow> 'a io_scheme" where
  "alert msg s = s\<lparr>alerts := alerts s @ [msg]\<rparr>"

definition console_error :: "string \<Rightarrow> 'a io_scheme \<Rightarrow> 'a io_scheme" where
  "console_error msg s = s\<lparr>console := console s @ [Console_error msg]\<rparr>"

definition console_warn :: "string \<Rightarrow> 'a io_scheme \<Rightarrow> 'a io_scheme" where
  "console_warn msg s = s\<lparr>console := console s @ [Console_warn msg]\<rparr>"

definition fetch_issue :: "request \<Rightarrow> 'a io_scheme \<Rightarrow> 'a io_scheme" where
  "fetch_issue req s = s\<lparr>net := net s @ [Issued req]\<rparr>"

definition fetch_settle :: "request \<Rightarrow> 'a io_scheme \<Rightarrow> 'a io_scheme" where
  "fetch_settle req s = s\<lparr>net := net s @ [Settled req]\<rparr>"

definition API_URL :: string where
  "API_URL = ''http://127.0.0.1:8000''"

subsection \<open>What the backend sends\<close>

text \<open>
  The fields the scripts read: of the reply to a POST or PUT, \<^verbatim>\<open>message\<close>, \<^verbatim>\<open>detail\<close> and
  \<^verbatim>\<open>order_reference_id\<close>; of an order, its id, supplier, items, \<^verbatim>\<open>total_amount\<close> (absent or
  a number) and \<^verbatim>\<open>status\<close>.
\<close>

record reply =
  message :: "string option"
  detail :: "string option"
  reply_order_reference_id :: "string option"

record order_item =
  item_product_name :: string
  item_quantity :: rat
  item_price_per_item :: rat

record order =
  order_reference_id :: string
  supplier_name :: string
  order_items :: "order_item list"
  total_amount :: "rat option"
  status :: string

record orders_body =
  body_orders :: "order list option"
  body_detail :: "string option"

subsection \<open>What the pages show\<close>

text \<open>
  A button is its label and the call written into its \<^verbatim>\<open>onclick\<close> attribute. A total is
  written with two decimals when \<^verbatim>\<open>total_amount\<close> is truthy (present and not 0), else as a
  fixed text. A container holds a paragraph, an error paragraph (the red one) or a list of
  elements.
\<close>

datatype onclick = ApproveOrder string | MarkOrderComplete string

datatype button = Button string onclick

datatype total_cell = Fixed2 rat | Total_text string

datatype 'a panel = Paragraph string | Error_paragraph string | Elements "'a list"


definition failed :: "'a fetch_result \<Rightarrow> bool" where
  "failed r = (case r of NetworkError m \<Rightarrow> True
               | Response st txt body \<Rightarrow> isl body \<or> \<not> response_ok st)"

text \<open>The largest number of requests sent and not yet settled, over a network log.\<close>

fun max_in_flight_from :: "nat \<Rightarrow> nat \<Rightarrow> net_event list \<Rightarrow> nat" where
  "max_in_flight_from cur best [] = best"
| "max_in_flight_from cur best (Issued r # es) = max_in_flight_from (Suc cur) (max best (Suc cur)) es"
| "max_in_flight_from cur best (Settled r # es) = max_in_flight_from (cur - 1) best es"

definition max_in_flight :: "net_event list \<Rightarrow> nat" where
  "max_in_flight es = max_in_flight_from 0 0 es"

definition total_amount_cell :: "rat option \<Rightarrow> string \<Rightarrow> total_cell" where
  "total_amount_cell amount fallback =
     (case amount of None \<Rightarrow> Total_text fallback
      | Some t \<Rightarrow> if t = 0 then Total_text fallback else Fixed2 t)"

section \<open>The owner page\<close>

text \<open>
  \<^verbatim>\<open>suppliersData\<close> is the script's one variable (\<^verbatim>\<open>let suppliersData = []\<close>); the other
  components are the page: the options of \<^verbatim>\<open>supplierSelect\<close>, the content of
  \<^verbatim>\<open>productsForOrder\<close> and of \<^verbatim>\<open>allOrdersList\<close>, the number of times the order form has been
  reset, and whether the first style sheet can be read and extended. An option of
  \<^verbatim>\<open>supplierSelect\<close> carries its value, its text and the supplier stored in its
  \<^verbatim>\<open>data-supplier-info\<close>. The value selected in \<^verbatim>\<open>supplierSelect\<close> is read when an event
  arrives and is an argument.

  \<^verbatim>\<open>data.suppliers\<close> is absent or falsy (\<^verbatim>\<open>None\<close>), an array, or another truthy value, on
  which \<^verbatim>\<open>forEach\<close> and \<^verbatim>\<open>find\<close> are not functions. An entry of the array is \<^verbatim>\<open>null\<close> or an
  object whose \<^verbatim>\<open>company_name\<close> is absent or a string and whose \<^verbatim>\<open>products\<close> are absent or an
  array of objects with a name and a price.
\<close>

record product =
  product_name :: string
  price_per_item :: rat

record supplier =
  company_name :: "string option"
  supplier_products :: "product list option"

datatype suppliers_value = Supplier_array "supplier option list" | Not_an_array

record suppliers_body =
  body_suppliers :: "suppliers_value option"

record select_option =
  option_value :: string
  option_text :: string
  option_supplierInfo :: "supplier option"

record order_row =
  row_order_id :: string
  row_supplier :: string
  row_details :: "(string \<times> rat) list"
  row_total :: total_cell
  row_status :: string
  row_action :: "button option"

record owner_state = io +
  suppliersData :: suppliers_value
  supplierSelect :: "select_option list"
  productsForOrder :: "product_order_item panel"
  allOrdersList :: "order_row panel"
  newOrderForm_resets :: nat
  styleSheet_accessible :: bool

record order_line =
  line_product_name :: string
  line_quantity :: number
  line_price_per_item :: number

subsection \<open>fetchSuppliers\<close>

definition suppliers_request :: request where
  "suppliers_request = \<lparr>req_method = GET, req_url = API_URL @ ''/suppliers'', req_body = None\<rparr>"

text \<open>
  An \<^verbatim>\<open>async\<close> function runs until its \<^verbatim>\<open>await fetch(...)\<close>, which sends the request, and
  resumes when the response is there.
\<close>

definition fetchSuppliers_start :: "owner_state \<Rightarrow> owner_state" where
  "fetchSuppliers_start s = fetch_issue suppliers_request s"

definition fetchSuppliers_catch :: "owner_state \<Rightarrow> owner_state" where
  "fetchSuppliers_catch s =
     (console_error ''Error fetching suppliers:'' s)
       \<lparr>supplierSelect := [\<lparr>option_value = [], option_text = ''Error loading suppliers'',
                           option_supplierInfo = None\<rparr>]\<rparr>"

definition add_supplier_option :: "owner_state \<Rightarrow> supplier option \<Rightarrow> owner_state" where
  "add_supplier_option s entry =
     (case entry of
        None \<Rightarrow> console_warn ''Skipping supplier with missing data:'' s
      | Some sp \<Rightarrow>
          (case company_name sp of
             None \<Rightarrow> console_warn ''Skipping supplier with missing data:'' s
           | Some n \<Rightarrow>
               if n = [] then console_warn ''Skipping supplier with missing data:'' s
               else s\<lparr>supplierSelect := supplierSelect s @ [\<lparr>option_value = n, option_text = n,
                                                         option_supplierInfo = Some sp\<rparr>]\<rparr>))"

definition fetchSuppliers_resume :: "suppliers_body fetch_result \<Rightarrow> owner_state \<Rightarrow> owner_state" where
  "fetchSuppliers_resume r s0 =
     (let s = fetch_settle suppliers_request s0 in
      case r of
        NetworkError m \<Rightarrow> fetchSuppliers_catch s
      | Response st txt body \<Rightarrow>
          if \<not> response_ok st then fetchSuppliers_catch s
          else (case body of
                  Inl m \<Rightarrow> fetchSuppliers_catch s
                | Inr data \<Rightarrow>
                    let s1 = s\<lparr>suppliersData :=
                                (case body_suppliers data of None \<Rightarrow> Supplier_array [] | Some v \<Rightarrow> v)\<rparr>;
                        s2 = s1\<lparr>supplierSelect := [\<lparr>option_value = [], option_text = ''Select supplier...'',
                                                option_supplierInfo = None\<rparr>]\<rparr>
                    in (case suppliersData s2 of
                          Supplier_array entries \<Rightarrow> foldl add_supplier_option s2 entries
                        | Not_an_array \<Rightarrow> fetchSuppliers_catch s2)))"

definition fetchSuppliers :: "suppliers_body fetch_result \<Rightarrow> owner_state \<Rightarrow> owner_state" where
  "fetchSuppliers r s = fetchSuppliers_resume r (fetchSuppliers_start s)"

subsection \<open>displayProductsForOrder\<close>

text \<open>
  \<^verbatim>\<open>suppliersData.find(s => s.company_name === selectedSupplierName)\<close>: \<^verbatim>\<open>Some None\<close> is
  \<^verbatim>\<open>undefined\<close>; on a \<^verbatim>\<open>null\<close> entry the property read throws (\<^verbatim>\<open>None\<close>), the handler stops and
  the browser logs the uncaught exception.
\<close>

fun find_supplier :: "string \<Rightarrow> supplier option list \<Rightarrow> supplier option option" where
  "find_supplier name [] = Some None"
| "find_supplier name (None # ss) = None"
| "find_supplier name (Some sp # ss) =
     (if company_name sp = Some name then Some (Some sp) else find_supplier name ss)"

text \<open>
  The row template: a checkbox with \<^verbatim>\<open>value="${product.product_name}"\<close> and
  \<^verbatim>\<open>data-price="${product.price_per_item}"\<close>, the label, and a disabled number input with
  \<^verbatim>\<open>name="quantity_${product.product_name}"\<close>. Filled with plain text it parses to these two
  elements; filled with anything else, to what the HTML parser makes of it.
\<close>

definition product_item :: "js_builtins \<Rightarrow> product \<Rightarrow> product_order_item" where
  "product_item js p =
     \<lparr>checkbox_value = product_name p,
      checkbox_data_price = numberToString js (price_per_item p),
      checkbox_checked = False,
      quantity_name = ''quantity_'' @ product_name p,
      quantity_value = [], quantity_disabled = True\<rparr>"

definition product_rows :: "js_builtins \<Rightarrow> product \<Rightarrow> product_order_item list" where
  "product_rows js p =
     (if plain_text (product_name p) \<and> plain_text (numberToString js (price_per_item p)) \<and>
         plain_text (toFixed2 js (price_per_item p))
      then [product_item js p]
      else html_product_rows js (product_name p) (numberToString js (price_per_item p))
             (toFixed2 js (price_per_item p)))"

definition displayProductsForOrder :: "js_builtins \<Rightarrow> string \<Rightarrow> owner_state \<Rightarrow> owner_state" where
  "displayProductsForOrder js selectedSupplierName s0 =
     (let s = s0\<lparr>productsForOrder := Elements []\<rparr> in
      if selectedSupplierName = []
      then s\<lparr>productsForOrder := Paragraph ''Please select a supplier to see products.''\<rparr>
      else (case suppliersData s of
              Not_an_array \<Rightarrow> console_error ''Uncaught TypeError'' s
            | Supplier_array entries \<Rightarrow>
                (case find_supplier selectedSupplierName entries of
                   None \<Rightarrow> console_error ''Uncaught TypeError'' s
                 | Some selectedSupplier \<Rightarrow>
                     (case selectedSupplier of
                        None \<Rightarrow> s\<lparr>productsForOrder := Paragraph ''No products found for this supplier.''\<rparr>
                      | Some sp \<Rightarrow>
                          (case supplier_products sp of
                             None \<Rightarrow>
                               s\<lparr>productsForOrder := Paragraph ''No products found for this supplier.''\<rparr>
                           | Some ps \<Rightarrow>
                               if ps = []
                               then s\<lparr>productsForOrder := Paragraph ''No products found for this supplier.''\<rparr>
                               else s\<lparr>productsForOrder := Elements (concat (map (product_rows js) ps))\<rparr>)))))"

text \<open>
  The \<^verbatim>\<open>change\<close> listener of a row's checkbox, after the click has toggled it; and the
  user typing into a row's quantity input.
\<close>

definition checkbox_change :: "product_order_item \<Rightarrow> product_order_item" where
  "checkbox_change item =
     (let now_checked = \<not> checkbox_checked item in
      item\<lparr>checkbox_checked := now_checked, quantity_disabled := \<not> now_checked,
           quantity_value := (if now_checked then ''1'' else [])\<rparr>)"

definition type_quantity :: "string \<Rightarrow> product_order_item \<Rightarrow> product_order_item" where
  "type_quantity typed item = item\<lparr>quantity_value := typed\<rparr>"

definition on_row ::
  "nat \<Rightarrow> (product_order_item \<Rightarrow> product_order_item) \<Rightarrow> owner_state \<Rightarrow> owner_state" where
  "on_row i event s =
     (case productsForOrder s of
        Elements rows \<Rightarrow>
          if i < length rows then s\<lparr>productsForOrder := Elements (rows[i := event (rows ! i)])\<rparr> else s
      | _ \<Rightarrow> s)"

subsection \<open>loadAllOrders\<close>

definition orders_request :: request where
  "orders_request = \<lparr>req_method = GET, req_url = API_URL @ ''/orders/'', req_body = None\<rparr>"

text \<open>
  What the row template is filled with: the id, the supplier, the items' names and
  quantities, the total, the status, and in the actions cell the button when the status is
  \<^verbatim>\<open>In Process\<close> and nothing otherwise. \<^verbatim>\<open>row_details_html\<close> is the text of the details
  cell as it is written, the names unescaped.
\<close>

definition owner_row :: "order \<Rightarrow> order_row" where
  "owner_row order =
     \<lparr>row_order_id = order_reference_id order,
      row_supplier = supplier_name order,
      row_details = map (\<lambda>item. (item_product_name item, item_quantity item)) (order_items order),
      row_total = total_amount_cell (total_amount order) ''N/A'',
      row_status = status order,
      row_action = (if status order = ''In Process''
                    then Some (Button ''Confirm Receipt (Complete)''
                                 (MarkOrderComplete (order_reference_id order)))
                    else None)\<rparr>"

definition row_details_html :: "js_builtins \<Rightarrow> order_row \<Rightarrow> string" where
  "row_details_html js row =
     join_with '', ''
       (map (\<lambda>(name, quantity). name @ '' (x'' @ numberToString js quantity @ '')'') (row_details row))"

definition loadAllOrders_start :: "owner_state \<Rightarrow> owner_state" where
  "loadAllOrders_start s =
     fetch_issue orders_request (s\<lparr>allOrdersList := Paragraph ''Loading orders...''\<rparr>)"

definition loadAllOrders_catch :: "owner_state \<Rightarrow> owner_state" where
  "loadAllOrders_catch s =
     (console_error ''Error loading orders:'' s)
       \<lparr>allOrdersList := Error_paragraph ''Error loading orders.''\<rparr>"

definition loadAllOrders_resume :: "orders_body fetch_result \<Rightarrow> owner_state \<Rightarrow> owner_state" where
  "loadAllOrders_resume r s0 =
     (let s = fetch_settle orders_request s0 in
      case r of
        NetworkError m \<Rightarrow> loadAllOrders_catch s
      | Response st txt body \<Rightarrow>
          if \<not> response_ok st then loadAllOrders_catch s
          else (case body of
                  Inl m \<Rightarrow> loadAllOrders_catch s
                | Inr data \<Rightarrow>
                    let orders = (case body_orders data of None \<Rightarrow> [] | Some l \<Rightarrow> l);
                        s1 = s\<lparr>allOrdersList := Elements []\<rparr>
                    in if orders = [] then s1\<lparr>allOrdersList := Paragraph ''No orders found.''\<rparr>
                       else (let s2 = (if styleSheet_accessible s1 then s1
                                       else console_warn ''Could not insert dynamic CSS rules for status:'' s1)
                             in s2\<lparr>allOrdersList := Elements (map owner_row orders)\<rparr>)))"

definition loadAllOrders :: "orders_body fetch_result \<Rightarrow> owner_state \<Rightarrow> owner_state" where
  "loadAllOrders r s = loadAllOrders_resume r (loadAllOrders_start s)"

subsection \<open>submitNewOrder\<close>

definition panel_elements :: "'a panel \<Rightarrow> 'a list" where
  "panel_elements p = (case p of Elements xs \<Rightarrow> xs | _ \<Rightarrow> [])"

definition checkedProducts :: "product_order_item list \<Rightarrow> product_order_item list" where
  "checkedProducts rows = filter checkbox_checked rows"

text \<open>
  \<^verbatim>\<open>productsForOrderDiv.querySelector(`input[name="quantity_${productName}"]`)\<close>. For a
  product name of plain text the selector is an attribute selector with that name as its
  quoted value: it yields the first quantity input of the list with exactly this name, or
  \<^verbatim>\<open>null\<close>. For any other name the selector engine decides: a quote ends the value early, a
  backslash escapes what follows, and the selector may match nothing, something else, or
  not parse. Reading \<^verbatim>\<open>.value\<close> of \<^verbatim>\<open>null\<close> throws, as does a selector that does not parse;
  the loop is outside the handler's \<^verbatim>\<open>try\<close>, so the handler stops there and the browser logs
  the uncaught exception.
\<close>

definition quantityInput ::
  "js_builtins \<Rightarrow> product_order_item list \<Rightarrow> string \<Rightarrow> product_order_item query_result" where
  "quantityInput js rows productName =
     (if plain_text productName
      then (case find (\<lambda>r. quantity_name r = ''quantity_'' @ productName) rows of
              None \<Rightarrow> Not_found
            | Some r \<Rightarrow> Found r)
      else css_quantity_input js productName rows)"

fun collect_items ::
  "js_builtins \<Rightarrow> product_order_item list \<Rightarrow> product_order_item list \<Rightarrow>
   owner_state \<Rightarrow> order_line list \<Rightarrow> owner_state \<times> order_line list option" where
  "collect_items js rows [] s items = (s, Some items)"
| "collect_items js rows (checkbox # rest) s items =
     (let productName = checkbox_value checkbox in
      case quantityInput js rows productName of
        Not_found \<Rightarrow> (console_error ''Uncaught TypeError'' s, None)
      | Invalid_selector \<Rightarrow> (console_error ''Uncaught SyntaxError'' s, None)
      | Found input \<Rightarrow>
          let quantity = parseInt js (quantity_value input);
              price = parseFloat js (checkbox_data_price checkbox)
          in if num_gt quantity 0
             then collect_items js rows rest s
                    (items @ [\<lparr>line_product_name = productName, line_quantity = quantity,
                               line_price_per_item = price\<rparr>])
             else collect_items js rows rest
                    (console_warn (''Invalid quantity for '' @ productName) s) items)"

definition line_json :: "order_line \<Rightarrow> json" where
  "line_json l =
     JObject [(''product_name'', JString (line_product_name l)),
              (''quantity'', JNumber (line_quantity l)),
              (''price_per_item'', JNumber (line_price_per_item l))]"

definition orderPayload :: "string \<Rightarrow> order_line list \<Rightarrow> json" where
  "orderPayload selectedSupplierName items =
     JObject [(''supplier_name'', JString selectedSupplierName),
              (''items'', JArray (map line_json items))]"

definition create_order_request :: "json \<Rightarrow> request" where
  "create_order_request payload =
     \<lparr>req_method = POST, req_url = API_URL @ ''/orders/'', req_body = Some payload\<rparr>"

definition submitNewOrder_catch :: "owner_state \<Rightarrow> owner_state" where
  "submitNewOrder_catch s =
     alert ''An unexpected error occurred while submitting the order.''
       (console_error ''Error submitting order:'' s)"

definition submitNewOrder_response ::
  "reply fetch_result \<Rightarrow> orders_body fetch_result \<Rightarrow> owner_state \<Rightarrow> owner_state" where
  "submitNewOrder_response r r2 s =
     (case r of
        NetworkError m \<Rightarrow> submitNewOrder_catch s
      | Response st txt body \<Rightarrow>
          (case body of
             Inl m \<Rightarrow> submitNewOrder_catch s
           | Inr data \<Rightarrow>
               if response_ok st
               then
                 let s1 = alert (''Order '' @ or_else (reply_order_reference_id data) []
                                  @ '' created successfully!'') s;
                     s2 = s1\<lparr>newOrderForm_resets := Suc (newOrderForm_resets s1)\<rparr>;
                     s3 = s2\<lparr>productsForOrder :=
                               Paragraph ''Please select a supplier to see products.''\<rparr>
                 in loadAllOrders r2 s3
               else alert (''Error creating order: '' @ or_else (detail data) txt) s))"

definition submitNewOrder ::
  "js_builtins \<Rightarrow> string \<Rightarrow> reply fetch_result \<Rightarrow> orders_body fetch_result \<Rightarrow>
   owner_state \<Rightarrow> owner_state" where
  "submitNewOrder js selectedSupplierName r r2 s =
     (if selectedSupplierName = [] then alert ''Please select a supplier.'' s
      else
        let rows = panel_elements (productsForOrder s);
            checked = checkedProducts rows
        in if checked = [] then alert ''Please select at least one product to order.'' s
           else (case collect_items js rows checked s [] of
                   (s1, None) \<Rightarrow> s1
                 | (s1, Some items) \<Rightarrow>
                     if items = []
                     then alert ''Please ensure all selected products have a quantity greater than 0.'' s1
                     else
                       let req = create_order_request (orderPayload selectedSupplierName items)
                       in submitNewOrder_response r r2 (fetch_settle req (fetch_issue req s1))))"

subsection \<open>markOrderComplete\<close>

definition complete_request :: "string \<Rightarrow> request" where
  "complete_request orderRefId =
     \<lparr>req_method = PUT,
      req_url = API_URL @ ''/orders/complete/placeholder?order_ref_id='' @ orderRefId,
      req_body = None\<rparr>"

definition markOrderComplete_catch :: "owner_state \<Rightarrow> owner_state" where
  "markOrderComplete_catch s =
     alert ''An unexpected error occurred while marking the order as complete.''
       (console_error ''Error completing order:'' s)"

definition markOrderComplete_response ::
  "reply fetch_result \<Rightarrow> orders_body fetch_result \<Rightarrow> owner_state \<Rightarrow> owner_state" where
  "markOrderComplete_response r r2 s =
     (case r of
        NetworkError m \<Rightarrow> markOrderComplete_catch s
      | Response st txt body \<Rightarrow>
          (case body of
             Inl m \<Rightarrow> markOrderComplete_catch s
           | Inr data \<Rightarrow>
               if response_ok st
               then loadAllOrders r2 (alert (or_else (message data) ''Order marked as completed!'') s)
               else alert (''Error marking order as complete: '' @ or_else (detail data) txt) s))"

definition markOrderComplete ::
  "bool \<Rightarrow> string \<Rightarrow> reply fetch_result \<Rightarrow> orders_body fetch_result \<Rightarrow>
   owner_state \<Rightarrow> owner_state" where
  "markOrderComplete confirmed orderRefId r r2 s =
     (if \<not> confirmed then s
      else
        let req = complete_request orderRefId
        in markOrderComplete_response r r2 (fetch_settle req (fetch_issue req s)))"

subsection \<open>Page load\<close>

text \<open>
  The \<^verbatim>\<open>DOMContentLoaded\<close> listener calls \<^verbatim>\<open>fetchSuppliers()\<close> and \<^verbatim>\<open>loadAllOrders()\<close> without
  awaiting them: each runs up to its \<^verbatim>\<open>await fetch\<close>, so both requests are sent before
  either response is handled; the responses may arrive in either order.
\<close>

definition onDOMContentLoaded ::
  "bool \<Rightarrow> suppliers_body fetch_result \<Rightarrow> orders_body fetch_result \<Rightarrow>
   owner_state \<Rightarrow> owner_state" where
  "onDOMContentLoaded suppliers_first r1 r2 s =
     (let s1 = loadAllOrders_start (fetchSuppliers_start s) in
      if suppliers_first then loadAllOrders_resume r2 (fetchSuppliers_resume r1 s1)
      else fetchSuppliers_resume r1 (loadAllOrders_resume r2 s1))"

definition owner_init :: owner_state where
  "owner_init =
     \<lparr>alerts = [], console = [], net = [], suppliersData = Supplier_array [], supplierSelect = [],
      productsForOrder = Elements [], allOrdersList = Elements [], newOrderForm_resets = 0,
      styleSheet_accessible = True\<rparr>"

section \<open>The supplier page\<close>

text \<open>
  The page's state: the \<^verbatim>\<open>.product-entry\<close> rows of \<^verbatim>\<open>productsList\<close> (each input of a row may
  be missing, \<^verbatim>\<open>None\<close>), the content of \<^verbatim>\<open>ordersList\<close>, the text of
  \<^verbatim>\<open>loggedInSupplierName\<close>, the \<^verbatim>\<open>display\<close> of the three sections and the number of resets of
  the registration form. The values of the company, phone and representative inputs are
  read when the form is submitted and are arguments.
\<close>

record product_entry =
  product_name_input :: "string option"
  product_price_input :: "string option"
  product_min_qty_input :: "string option"

record new_product =
  new_product_name :: string
  new_price_per_item :: number
  new_minimum_quantity :: number

record order_li =
  li_order_id :: string
  li_products :: "(string \<times> rat \<times> rat) list"
  li_status :: string
  li_total :: total_cell
  li_action :: "button option"

record supplier_state = io +
  productsList :: "product_entry list"
  ordersList :: "order_li panel"
  loggedInSupplierName :: string
  loginSection_display :: string
  registerSection_display :: string
  ordersSection_display :: string
  registerForm_resets :: nat

subsection \<open>addProductEntry and its remove button\<close>

definition addProductEntry :: "supplier_state \<Rightarrow> supplier_state" where
  "addProductEntry s =
     s\<lparr>productsList := productsList s @
          [\<lparr>product_name_input = Some [], product_price_input = Some [],
            product_min_qty_input = Some []\<rparr>]\<rparr>"

definition removeProductEntry :: "nat \<Rightarrow> supplier_state \<Rightarrow> supplier_state" where
  "removeProductEntry i s =
     (if i < length (productsList s)
      then s\<lparr>productsList := take i (productsList s) @ drop (Suc i) (productsList s)\<rparr>
      else s)"

subsection \<open>The registration form's submit handler\<close>

definition valid_product :: "string \<Rightarrow> number \<Rightarrow> number \<Rightarrow> bool" where
  "valid_product productName pricePerItem minimumQuantity =
     (productName \<noteq> [] \<and> \<not> isNaN pricePerItem \<and> num_ge pricePerItem 0 \<and>
      \<not> isNaN minimumQuantity \<and> num_ge minimumQuantity 1)"

fun collect_products ::
  "js_builtins \<Rightarrow> product_entry list \<Rightarrow> supplier_state \<Rightarrow> new_product list \<Rightarrow> bool \<Rightarrow>
   supplier_state \<times> new_product list \<times> bool" where
  "collect_products js [] s products formIsValid = (s, products, formIsValid)"
| "collect_products js (entry # rest) s products formIsValid =
     (case (product_name_input entry, product_price_input entry, product_min_qty_input entry) of
        (Some name_value, Some price_value, Some min_qty_value) \<Rightarrow>
          (let productName = trim name_value;
               pricePerItem = parseFloat js price_value;
               minimumQuantity = parseInt js min_qty_value
           in if valid_product productName pricePerItem minimumQuantity
              then collect_products js rest s
                     (products @ [\<lparr>new_product_name = productName, new_price_per_item = pricePerItem,
                                   new_minimum_quantity = minimumQuantity\<rparr>]) formIsValid
              else collect_products js rest (console_warn ''Invalid product entry skipped:'' s)
                     products False)
      | _ \<Rightarrow> collect_products js rest (console_warn ''Incomplete product entry skipped:'' s)
               products False)"

definition new_product_json :: "new_product \<Rightarrow> json" where
  "new_product_json p =
     JObject [(''product_name'', JString (new_product_name p)),
              (''price_per_item'', JNumber (new_price_per_item p)),
              (''minimum_quantity'', JNumber (new_minimum_quantity p))]"

definition register_payload :: "string \<Rightarrow> string \<Rightarrow> string \<Rightarrow> new_product list \<Rightarrow> json" where
  "register_payload companyName phone representativeName products =
     JObject [(''company_name'', JString companyName), (''phone'', JString phone),
              (''representative_name'', JString representativeName),
              (''products'', JArray (map new_product_json products))]"

definition register_request :: "json \<Rightarrow> request" where
  "register_request payload =
     \<lparr>req_method = POST, req_url = API_URL @ ''/suppliers/register'', req_body = Some payload\<rparr>"

definition clear_entry :: "product_entry \<Rightarrow> product_entry" where
  "clear_entry entry =
     \<lparr>product_name_input = map_option (\<lambda>v. []) (product_name_input entry),
      product_price_input = map_option (\<lambda>v. []) (product_price_input entry),
      product_min_qty_input = map_option (\<lambda>v. []) (product_min_qty_input entry)\<rparr>"

definition register_catch :: "supplier_state \<Rightarrow> supplier_state" where
  "register_catch s =
     alert ''An unexpected error occurred during registration.''
       (console_error ''Registration Error:'' s)"

definition register_response :: "reply fetch_result \<Rightarrow> supplier_state \<Rightarrow> supplier_state" where
  "register_response r s =
     (case r of
        NetworkError m \<Rightarrow> register_catch s
      | Response st txt body \<Rightarrow>
          (case body of
             Inl m \<Rightarrow> register_catch s
           | Inr data \<Rightarrow>
               if response_ok st
               then
                 let s1 = alert (or_else (message data) ''Supplier registered successfully!'') s;
                     s2 = s1\<lparr>registerForm_resets := Suc (registerForm_resets s1)\<rparr>;
                     s3 = s2\<lparr>productsList := take 1 (productsList s2)\<rparr>
                 in s3\<lparr>productsList := map clear_entry (productsList s3)\<rparr>
               else alert (''Registration Error: '' @ or_else (detail data) txt) s))"

definition registerFormSubmitHandler ::
  "js_builtins \<Rightarrow> string \<Rightarrow> string \<Rightarrow> string \<Rightarrow> reply fetch_result \<Rightarrow>
   supplier_state \<Rightarrow> supplier_state" where
  "registerFormSubmitHandler js companyName phone representativeName r s =
     (case collect_products js (productsList s) s [] True of
        (s1, products, formIsValid) \<Rightarrow>
          if \<not> formIsValid
          then alert ''Please ensure all product fields (Name, Price >= 0, Min Qty >= 1) are correctly filled.'' s1
          else if products = [] then alert ''Please add at least one valid product.'' s1
          else
            let req = register_request (register_payload companyName phone representativeName products)
            in register_response r (fetch_settle req (fetch_issue req s1)))"

subsection \<open>loadOrders\<close>

text \<open>The decimal digits of \<^verbatim>\<open>response.status\<close>, as the template literal writes it.\<close>

fun show_nat :: "nat \<Rightarrow> string" where
  "show_nat n = (if n < 10 then [char_of (48 + n)] else show_nat (n div 10) @ [char_of (48 + n mod 10)])"

declare show_nat.simps [simp del]

definition supplier_orders_request :: "js_builtins \<Rightarrow> string \<Rightarrow> request" where
  "supplier_orders_request js companyName =
     \<lparr>req_method = GET,
      req_url = API_URL @ ''/orders/supplier/'' @ encodeURIComponent js companyName,
      req_body = None\<rparr>"

text \<open>
  What the item template is filled with: the id, the items, the status, the total, and in
  the actions block the button when the status is \<^verbatim>\<open>Pending\<close> and nothing otherwise.
  \<^verbatim>\<open>li_products_html\<close> is the text of the Products paragraph as it is written, the names
  unescaped:
  \<^verbatim>\<open>order.items.map(item => `${item.product_name} (Qty: ${item.quantity}, Price/Unit: ${item.price_per_item.toFixed(2)})`).join("<br>")\<close>
\<close>

definition order_li_of :: "order \<Rightarrow> order_li" where
  "order_li_of order =
     \<lparr>li_order_id = order_reference_id order,
      li_products = map (\<lambda>item. (item_product_name item, item_quantity item, item_price_per_item item))
                      (order_items order),
      li_status = status order,
      li_total = total_amount_cell (total_amount order) ''Not calculated'',
      li_action = (if status order = ''Pending''
                   then Some (Button ''Approve Order'' (ApproveOrder (order_reference_id order)))
                   else None)\<rparr>"

definition li_products_html :: "js_builtins \<Rightarrow> order_li \<Rightarrow> string" where
  "li_products_html js li =
     join_with ''<br>''
       (map (\<lambda>(name, quantity, price).
               name @ '' (Qty: '' @ numberToString js quantity @ '', Price/Unit: '' @
               toFixed2 js price @ '')'')
          (li_products li))"

definition loadOrders_catch :: "string \<Rightarrow> supplier_state \<Rightarrow> supplier_state" where
  "loadOrders_catch error_message s =
     (console_error ''Error loading orders:'' s)
       \<lparr>ordersList := Error_paragraph (if error_message = [] then ''Error loading orders.''
                                         else error_message)\<rparr>"

definition loadOrders_start :: "js_builtins \<Rightarrow> string \<Rightarrow> supplier_state \<Rightarrow> supplier_state" where
  "loadOrders_start js companyName s =
     fetch_issue (supplier_orders_request js companyName)
       (s\<lparr>ordersList := Paragraph ''Loading orders...''\<rparr>)"

definition loadOrders_resume ::
  "js_builtins \<Rightarrow> string \<Rightarrow> orders_body fetch_result \<Rightarrow> supplier_state \<Rightarrow> supplier_state" where
  "loadOrders_resume js companyName r s0 =
     (let s = fetch_settle (supplier_orders_request js companyName) s0 in
      case r of
        NetworkError m \<Rightarrow> loadOrders_catch m s
      | Response st txt body \<Rightarrow>
          if \<not> response_ok st
          then
            let errorDetail = (case body of Inl m \<Rightarrow> txt | Inr errorData \<Rightarrow> or_else (body_detail errorData) txt)
            in loadOrders_catch (''Error loading orders: '' @ errorDetail @ '' (Status: '' @ show_nat st @ '')'') s
          else (case body of
                  Inl m \<Rightarrow> loadOrders_catch m s
                | Inr data \<Rightarrow>
                    let s1 = s\<lparr>ordersList := Elements []\<rparr> in
                    (case body_orders data of
                       None \<Rightarrow> s1\<lparr>ordersList := Paragraph ''No orders to display for this supplier.''\<rparr>
                     | Some orders \<Rightarrow>
                         if orders = []
                         then s1\<lparr>ordersList := Paragraph ''No orders to display for this supplier.''\<rparr>
                         else s1\<lparr>ordersList := Elements (map order_li_of orders)\<rparr>)))"

definition loadOrders ::
  "js_builtins \<Rightarrow> string \<Rightarrow> orders_body fetch_result \<Rightarrow> supplier_state \<Rightarrow> supplier_state" where
  "loadOrders js companyName r s = loadOrders_resume js companyName r (loadOrders_start js companyName s)"

definition showOrdersView ::
  "js_builtins \<Rightarrow> string \<Rightarrow> orders_body fetch_result \<Rightarrow> supplier_state \<Rightarrow> supplier_state" where
  "showOrdersView js companyName r s =
     loadOrders js companyName r
       (s\<lparr>loggedInSupplierName := companyName, loginSection_display := ''none'',
          registerSection_display := ''none'', ordersSection_display := ''block''\<rparr>)"

subsection \<open>The login form's submit handler\<close>

definition login_payload :: "string \<Rightarrow> string \<Rightarrow> json" where
  "login_payload companyName phone =
     JObject [(''company_name'', JString companyName), (''phone'', JString phone)]"

definition login_request :: "json \<Rightarrow> request" where
  "login_request payload =
     \<lparr>req_method = POST, req_url = API_URL @ ''/suppliers/login'', req_body = Some payload\<rparr>"

definition login_catch :: "supplier_state \<Rightarrow> supplier_state" where
  "login_catch s =
     alert ''An unexpected error occurred during login.'' (console_error ''Login Error:'' s)"

definition login_response ::
  "js_builtins \<Rightarrow> string \<Rightarrow> reply fetch_result \<Rightarrow> orders_body fetch_result \<Rightarrow>
   supplier_state \<Rightarrow> supplier_state" where
  "login_response js companyName r r2 s =
     (case r of
        NetworkError m \<Rightarrow> login_catch s
      | Response st txt body \<Rightarrow>
          (case body of
             Inl m \<Rightarrow> login_catch s
           | Inr data \<Rightarrow>
               if response_ok st
               then showOrdersView js companyName r2 (alert (or_else (message data) ''Login successful!'') s)
               else alert (''Login Error: '' @ or_else (detail data) txt) s))"

definition loginFormSubmitHandler ::
  "js_builtins \<Rightarrow> string \<Rightarrow> string \<Rightarrow> reply fetch_result \<Rightarrow> orders_body fetch_result \<Rightarrow>
   supplier_state \<Rightarrow> supplier_state" where
  "loginFormSubmitHandler js loginCompanyName loginPhone r r2 s =
     (let companyName = trim loginCompanyName; phone = trim loginPhone in
      if companyName = [] \<or> phone = []
      then alert ''Please enter both Company Name and Phone Number.'' s
      else
        let req = login_request (login_payload companyName phone)
        in login_response js companyName r r2 (fetch_settle req (fetch_issue req s)))"

subsection \<open>approveOrder\<close>

definition approve_request :: "string \<Rightarrow> request" where
  "approve_request orderRefId =
     \<lparr>req_method = PUT,
      req_url = API_URL @ ''/orders/approve/placeholder?order_ref_id='' @ orderRefId,
      req_body = None\<rparr>"

definition approveOrder_catch :: "supplier_state \<Rightarrow> supplier_state" where
  "approveOrder_catch s =
     alert ''An unexpected error occurred while approving the order.''
       (console_error ''Error approving order:'' s)"

definition approveOrder_response ::
  "js_builtins \<Rightarrow> reply fetch_result \<Rightarrow> orders_body fetch_result \<Rightarrow> supplier_state \<Rightarrow> supplier_state" where
  "approveOrder_response js r r2 s =
     (case r of
        NetworkError m \<Rightarrow> approveOrder_catch s
      | Response st txt body \<Rightarrow>
          (case body of
             Inl m \<Rightarrow> approveOrder_catch s
           | Inr data \<Rightarrow>
               if response_ok st
               then
                 let s1 = alert (or_else (message data) ''Order approved successfully!'') s;
                     companyName = loggedInSupplierName s1
                 in if companyName \<noteq> [] then loadOrders js companyName r2 s1
                    else console_error ''Could not determine the company name to reload orders.'' s1
               else alert (''Error approving order: '' @ or_else (detail data) txt) s))"

definition approveOrder ::
  "js_builtins \<Rightarrow> bool \<Rightarrow> string \<Rightarrow> reply fetch_result \<Rightarrow> orders_body fetch_result \<Rightarrow>
   supplier_state \<Rightarrow> supplier_state" where
  "approveOrder js confirmed orderRefId r r2 s =
     (if \<not> confirmed then s
      else
        let req = approve_request orderRefId
        in approveOrder_response js r r2 (fetch_settle req (fetch_issue req s)))"

definition supplier_init :: supplier_state where
  "supplier_init =
     \<lparr>alerts = [], console = [], net = [], productsList = [], ordersList = Elements [],
      loggedInSupplierName = [], loginSection_display = [], registerSection_display = [],
      ordersSection_display = ''none'', registerForm_resets = 0\<rparr>"

subsection \<open>Builtins for the examples\<close>

text \<open>
  One instance of the browser's functions, used where a property is evaluated at a
  concrete page: it reads plain decimal digit strings, as \<^verbatim>\<open>parseInt\<close> and \<^verbatim>\<open>parseFloat\<close> do
  on them, and writes whole numbers that are not negative as JavaScript does. The
  examples apply it to such strings and numbers and to plain text only.
\<close>

fun digit_value :: "char \<Rightarrow> nat option" where
  "digit_value c = (if 48 \<le> (of_char c :: nat) \<and> (of_char c :: nat) \<le> 57 then Some (of_char c - 48) else None)"

fun digits_value :: "nat \<Rightarrow> string \<Rightarrow> nat option" where
  "digits_value acc [] = Some acc"
| "digits_value acc (c # cs) =
     (case digit_value c of None \<Rightarrow> None | Some d \<Rightarrow> digits_value (10 * acc + d) cs)"

definition parse_digits :: "string \<Rightarrow> number" where
  "parse_digits s =
     (if s = [] then NaN
      else case digits_value 0 s of None \<Rightarrow> NaN | Some n \<Rightarrow> Fin (of_nat n))"

definition show_whole :: "rat \<Rightarrow> string" where
  "show_whole x = (if 0 \<le> x \<and> of_int \<lfloor>x\<rfloor> = x then show_nat (nat \<lfloor>x\<rfloor>) else ''NaN'')"

definition example_js :: js_builtins where
  "example_js =
     \<lparr>parseInt = parse_digits, parseFloat = parse_digits,
      numberToString = show_whole,
      toFixed2 = (\<lambda>x. show_whole x @ ''.00''),
      encodeURIComponent = (\<lambda>s. s),
      html_product_rows = (\<lambda>name price fixed. []),
      css_quantity_input = (\<lambda>name rows. Not_found)\<rparr>"

section \<open>Vocabulary of the properties\<close>

text \<open>
  The requests a network log sent, and those a handler sent since a given state; the
  product rows as the row template makes them, with distinct plain names, and the lines
  and warnings the loop of \<^verbatim>\<open>submitNewOrder\<close> produces from such rows, each from the
  quantity typed in the checked row itself; what makes a registration row completely and
  validly filled; the keys of a JSON value; and example pages and responses.
\<close>

definition issued :: "net_event list \<Rightarrow> request list" where
  "issued es = concat (map (\<lambda>e. case e of Issued r \<Rightarrow> [r] | Settled r \<Rightarrow> []) es)"

definition sent_since :: "'a io_scheme \<Rightarrow> 'b io_scheme \<Rightarrow> request list" where
  "sent_since before after = issued (drop (length (net before)) (net after))"

definition template_rows :: "product_order_item list \<Rightarrow> bool" where
  "template_rows rows =
     (list_all (\<lambda>r. plain_text (checkbox_value r) \<and>
                    quantity_name r = ''quantity_'' @ checkbox_value r) rows \<and>
      distinct (map checkbox_value rows))"

definition own_line :: "js_builtins \<Rightarrow> product_order_item \<Rightarrow> order_line" where
  "own_line js checkbox =
     \<lparr>line_product_name = checkbox_value checkbox,
      line_quantity = parseInt js (quantity_value checkbox),
      line_price_per_item = parseFloat js (checkbox_data_price checkbox)\<rparr>"

definition own_lines :: "js_builtins \<Rightarrow> product_order_item list \<Rightarrow> order_line list" where
  "own_lines js checked =
     map (own_line js) (filter (\<lambda>c. num_gt (parseInt js (quantity_value c)) 0) checked)"

definition own_warnings :: "js_builtins \<Rightarrow> product_order_item list \<Rightarrow> console_entry list" where
  "own_warnings js checked =
     map (\<lambda>c. Console_warn (''Invalid quantity for '' @ checkbox_value c))
       (filter (\<lambda>c. \<not> num_gt (parseInt js (quantity_value c)) 0) checked)"


definition example_order_page :: owner_state where
  "example_order_page =
     owner_init\<lparr>productsForOrder :=
       Elements [\<lparr>checkbox_value = ''bolt'', checkbox_data_price = ''5'', checkbox_checked = True,
                  quantity_name = ''quantity_bolt'', quantity_value = ''3'',
                  quantity_disabled = False\<rparr>]\<rparr>"

text \<open>
  A supplier whose two products have the same name; and the order form after the
  suppliers have been loaded, this supplier selected, the second product's box checked and
  4 typed as its quantity.
\<close>

definition duplicate_products :: "suppliers_body fetch_result" where
  "duplicate_products = Response 200 ''OK'' (Inr \<lparr>body_suppliers = Some (Supplier_array
     [Some \<lparr>company_name = Some ''Acme'', supplier_products = Some
        [\<lparr>product_name = ''bolt'', price_per_item = 5\<rparr>,
         \<lparr>product_name = ''bolt'', price_per_item = 12\<rparr>]\<rparr>])\<rparr>)"

definition duplicate_names_page :: owner_state where
  "duplicate_names_page =
     on_row 1 (type_quantity ''4'')
       (on_row 1 checkbox_change
          (displayProductsForOrder example_js ''Acme'' (fetchSuppliers duplicate_products owner_init)))"

text \<open>A response in which \<^verbatim>\<open>suppliers\<close> is a number.\<close>

definition suppliers_not_an_array :: "suppliers_body fetch_result" where
  "suppliers_not_an_array = Response 200 ''OK'' (Inr \<lparr>body_suppliers = Some Not_an_array\<rparr>)"

definition row_filled :: "js_builtins \<Rightarrow> product_entry \<Rightarrow> bool" where
  "row_filled js entry =
     (case product_name_input entry of
        None \<Rightarrow> False
      | Some name_value \<Rightarrow>
          (case product_price_input entry of
             None \<Rightarrow> False
           | Some price_value \<Rightarrow>
               (case product_min_qty_input entry of
                  None \<Rightarrow> False
                | Some min_qty_value \<Rightarrow>
                    trim name_value \<noteq> [] \<and>
                    parseFloat js price_value \<noteq> NaN \<and> num_ge (parseFloat js price_value) 0 \<and>
                    parseInt js min_qty_value \<noteq> NaN \<and> num_ge (parseInt js min_qty_value) 1)))"

definition entry_product :: "js_builtins \<Rightarrow> product_entry \<Rightarrow> new_product" where
  "entry_product js entry =
     \<lparr>new_product_name = trim (case product_name_input entry of None \<Rightarrow> [] | Some v \<Rightarrow> v),
      new_price_per_item = parseFloat js (case product_price_input entry of None \<Rightarrow> [] | Some v \<Rightarrow> v),
      new_minimum_quantity = parseInt js (case product_min_qty_input entry of None \<Rightarrow> [] | Some v \<Rightarrow> v)\<rparr>"

definition entry_complete :: "product_entry \<Rightarrow> bool" where
  "entry_complete entry =
     (product_name_input entry \<noteq> None \<and> product_price_input entry \<noteq> None \<and>
      product_min_qty_input entry \<noteq> None)"

definition entry_warning :: "js_builtins \<Rightarrow> product_entry \<Rightarrow> console_entry list" where
  "entry_warning js entry =
     (if row_filled js entry then []
      else if entry_complete entry then [Console_warn ''Invalid product entry skipped:'']
      else [Console_warn ''Incomplete product entry skipped:''])"

definition object_keys :: "json \<Rightarrow> string list" where
  "object_keys j = (case j of JObject members \<Rightarrow> map fst members | _ \<Rightarrow> [])"

definition example_entry :: product_entry where
  "example_entry =
     \<lparr>product_name_input = Some '' bolt '', product_price_input = Some ''5'',
      product_min_qty_input = Some ''12''\<rparr>"

definition example_register_page :: supplier_state where
  "example_register_page = supplier_init\<lparr>productsList := [example_entry]\<rparr>"

fun all_keys :: "json \<Rightarrow> string list" where
  "all_keys (JObject members) = concat (map (\<lambda>(k, v). k # all_keys v) members)"
| "all_keys (JArray elements) = concat (map all_keys elements)"
| "all_keys j = []"

definition request_keys :: "request \<Rightarrow> string list" where
  "request_keys req = (case req_body req of None \<Rightarrow> [] | Some j \<Rightarrow> all_keys j)"


text \<open>
  A completed order one of whose items is named with the markup of a button; and the
  response that lists it.
\<close>

definition injected_order :: order where
  "injected_order =
     \<lparr>order_reference_id = ''A3'', supplier_name = ''Acme'',
      order_items = [\<lparr>item_product_name = ''<button onclick=approveOrder(1)>Approve Order</button>'',
                      item_quantity = 1, item_price_per_item = 5\<rparr>],
      total_amount = Some 5, status = ''Completed''\<rparr>"

definition injected_orders :: "orders_body fetch_result" where
  "injected_orders = Response 200 ''OK'' (Inr \<lparr>body_orders = Some [injected_order], body_detail = None\<rparr>)"

definition lifecycle_free :: "request \<Rightarrow> bool" where
  "lifecycle_free req =
     (''status'' \<notin> set (request_keys req) \<and> ''total_amount'' \<notin> set (request_keys req))"

section \<open>The genealogy exercise (SQL script)\<close>

text \<open>
  The script creates \<^verbatim>\<open>People\<close> (\<^verbatim>\<open>Person_Id INT PRIMARY KEY\<close>, three name and gender
  columns, and the nullable \<^verbatim>\<open>Father_Id\<close>, \<^verbatim>\<open>Mother_Id\<close>, \<^verbatim>\<open>Spouse_Id\<close>) and
  \<^verbatim>\<open>Family_Tree\<close> with \<^verbatim>\<open>PRIMARY KEY (Person_Id, Relative_Id)\<close>. A table is the list of
  its rows; a nullable column is an \<open>option\<close>, \<open>None\<close> being \<^verbatim>\<open>NULL\<close>. A key column is
  never \<^verbatim>\<open>NULL\<close>, so \<^verbatim>\<open>Person_Id\<close> is an \<open>int\<close>. A statement that fails returns an
  error and changes nothing.
\<close>

datatype sql_error = Duplicate_Key | Subquery_Returns_More_Than_One_Row

record person =
  Person_Id :: int
  Personal_Name :: "string option"
  Family_Name :: "string option"
  Gender :: "string option"
  Father_Id :: "int option"
  Mother_Id :: "int option"
  Spouse_Id :: "int option"

type_synonym family_row = "int \<times> int \<times> string"

text \<open>
  Comparisons follow SQL's three-valued logic: \<open>None\<close> is \<^verbatim>\<open>UNKNOWN\<close>, and a
  \<^verbatim>\<open>WHERE\<close>, \<^verbatim>\<open>ON\<close> or \<^verbatim>\<open>CASE WHEN\<close> condition selects only on \<^verbatim>\<open>TRUE\<close>.
\<close>

definition sql_eq :: "'a option \<Rightarrow> 'a option \<Rightarrow> bool option" where
  "sql_eq a b = (case a of None \<Rightarrow> None | Some x \<Rightarrow> (case b of None \<Rightarrow> None | Some y \<Rightarrow> Some (x = y)))"

definition sql_not :: "bool option \<Rightarrow> bool option" where
  "sql_not a = map_option Not a"

definition sql_or :: "bool option \<Rightarrow> bool option \<Rightarrow> bool option" where
  "sql_or a b = (if a = Some True \<or> b = Some True then Some True
                 else if a = Some False \<and> b = Some False then Some False else None)"

definition sql_and :: "bool option \<Rightarrow> bool option \<Rightarrow> bool option" where
  "sql_and a b = (if a = Some False \<or> b = Some False then Some False
                  else if a = Some True \<and> b = Some True then Some True else None)"

definition sql_true :: "bool option \<Rightarrow> bool" where
  "sql_true a = (a = Some True)"

subsection \<open>Ex1: the six SELECTs of the INSERT, joined by UNION ALL\<close>

text \<open>\<^verbatim>\<open>SELECT Person_Id, Father_Id, 'father' FROM People WHERE Father_Id IS NOT NULL\<close>\<close>

definition father_rows :: "person list \<Rightarrow> family_row list" where
  "father_rows people =
     concat (map (\<lambda>p. case Father_Id p of None \<Rightarrow> [] | Some f \<Rightarrow> [(Person_Id p, f, ''father'')]) people)"

text \<open>\<^verbatim>\<open>SELECT Person_Id, Mother_Id, 'mother' FROM People WHERE Mother_Id IS NOT NULL\<close>\<close>

definition mother_rows :: "person list \<Rightarrow> family_row list" where
  "mother_rows people =
     concat (map (\<lambda>p. case Mother_Id p of None \<Rightarrow> [] | Some m \<Rightarrow> [(Person_Id p, m, ''mother'')]) people)"

text \<open>
  The sibling rows:
  \<^verbatim>\<open>SELECT p1.Person_Id, p2.Person_Id, CASE WHEN p1.Gender = 'M' THEN 'brother' ELSE 'sister' END
  FROM People p1 JOIN People p2
    ON (p1.Father_Id = p2.Father_Id OR p1.Mother_Id = p2.Mother_Id) AND p1.Person_Id <> p2.Person_Id
  WHERE p1.Father_Id IS NOT NULL AND p1.Mother_Id IS NOT NULL\<close>
\<close>

definition sibling_on :: "person \<Rightarrow> person \<Rightarrow> bool option" where
  "sibling_on p1 p2 =
     sql_and (sql_or (sql_eq (Father_Id p1) (Father_Id p2)) (sql_eq (Mother_Id p1) (Mother_Id p2)))
             (sql_not (sql_eq (Some (Person_Id p1)) (Some (Person_Id p2))))"

definition sibling_rows :: "person list \<Rightarrow> family_row list" where
  "sibling_rows people =
     [(Person_Id p1, Person_Id p2,
       if sql_true (sql_eq (Gender p1) (Some ''M'')) then ''brother'' else ''sister'').
      p1 \<leftarrow> people, p2 \<leftarrow> people, sql_true (sibling_on p1 p2),
      Father_Id p1 \<noteq> None \<and> Mother_Id p1 \<noteq> None]"

text \<open>
  \<^verbatim>\<open>SELECT Father_Id, Person_Id, CASE WHEN Gender = 'M' THEN 'son' ELSE 'daughter' END
  FROM People WHERE Father_Id IS NOT NULL\<close>, and the same from the mother's side.
\<close>

definition child_label :: "person \<Rightarrow> string" where
  "child_label p = (if sql_true (sql_eq (Gender p) (Some ''M'')) then ''son'' else ''daughter'')"

definition father_child_rows :: "person list \<Rightarrow> family_row list" where
  "father_child_rows people =
     concat (map (\<lambda>p. case Father_Id p of None \<Rightarrow> [] | Some f \<Rightarrow> [(f, Person_Id p, child_label p)]) people)"

definition mother_child_rows :: "person list \<Rightarrow> family_row list" where
  "mother_child_rows people =
     concat (map (\<lambda>p. case Mother_Id p of None \<Rightarrow> [] | Some m \<Rightarrow> [(m, Person_Id p, child_label p)]) people)"

text \<open>
  \<^verbatim>\<open>SELECT Person_Id, Spouse_Id, CASE WHEN Gender = 'M' THEN 'wife' ELSE 'husband' END
  FROM People WHERE Spouse_Id IS NOT NULL\<close>
\<close>

definition spouse_rows :: "person list \<Rightarrow> family_row list" where
  "spouse_rows people =
     concat (map (\<lambda>p. case Spouse_Id p of None \<Rightarrow> []
        | Some s \<Rightarrow> [(Person_Id p, s,
             if sql_true (sql_eq (Gender p) (Some ''M'')) then ''wife'' else ''husband'')]) people)"

definition ex1_select :: "person list \<Rightarrow> family_row list" where
  "ex1_select people =
     father_rows people @ mother_rows people @ sibling_rows people @
     father_child_rows people @ mother_child_rows people @ spouse_rows people"

text \<open>
  The INSERT appends the selected rows to \<^verbatim>\<open>Family_Tree\<close>. The table's primary key is
  \<^verbatim>\<open>(Person_Id, Relative_Id)\<close>: when two rows of the result would share it, the statement
  fails and no row is inserted.
\<close>

definition row_key :: "family_row \<Rightarrow> int \<times> int" where
  "row_key r = (fst r, fst (snd r))"

definition ex1_insert :: "family_row list \<Rightarrow> person list \<Rightarrow> sql_error + family_row list" where
  "ex1_insert family_tree people =
     (let rows = family_tree @ ex1_select people
      in if distinct (map row_key rows) then Inr rows else Inl Duplicate_Key)"

text \<open>The sample rows the script inserts into \<^verbatim>\<open>People\<close>.\<close>

definition mk_person :: "int \<Rightarrow> string \<Rightarrow> string \<Rightarrow> string \<Rightarrow> int option \<Rightarrow> int option \<Rightarrow> int option \<Rightarrow> person" where
  "mk_person i n f g fa mo sp =
     \<lparr>Person_Id = i, Personal_Name = Some n, Family_Name = Some f, Gender = Some g,
      Father_Id = fa, Mother_Id = mo, Spouse_Id = sp\<rparr>"

definition sample_people :: "person list" where
  "sample_people =
    [mk_person 111 ''David'' ''Cohen'' ''M'' None None (Some 222),
     mk_person 222 ''Sarah'' ''Cohen'' ''F'' None None None,
     mk_person 333 ''Michael'' ''Cohen'' ''M'' (Some 111) (Some 222) None,
     mk_person 444 ''Rachel'' ''Cohen'' ''F'' (Some 111) (Some 222) None]"

text \<open>The content of \<^verbatim>\<open>Family_Tree\<close> once the INSERT has run, whether it succeeded or not.\<close>

definition family_tree_after :: "family_row list \<Rightarrow> person list \<Rightarrow> family_row list" where
  "family_tree_after family_tree people =
     (case ex1_insert family_tree people of Inr rows \<Rightarrow> rows | Inl e \<Rightarrow> family_tree)"

subsection \<open>Ex2: the UPDATE completing the spouse links\<close>

text \<open>
  \<^verbatim>\<open>UPDATE People SET Spouse_Id = (SELECT p1.Person_Id FROM People p1 WHERE p1.Spouse_Id = People.Person_Id)
  WHERE Spouse_Id IS NULL AND EXISTS (SELECT 1 FROM People p1 WHERE p1.Spouse_Id = People.Person_Id)\<close>

  Both subqueries read the table as it was before the statement. A scalar subquery yields
  \<^verbatim>\<open>NULL\<close> on no row, the value on one row, and an error on more.
\<close>

definition spouse_subquery :: "person list \<Rightarrow> person \<Rightarrow> int list" where
  "spouse_subquery people p =
     [Person_Id p1. p1 \<leftarrow> people, sql_true (sql_eq (Spouse_Id p1) (Some (Person_Id p)))]"

definition scalar_subquery :: "'a list \<Rightarrow> sql_error + 'a option" where
  "scalar_subquery rows =
     (case rows of [] \<Rightarrow> Inr None | [x] \<Rightarrow> Inr (Some x)
      | x # y # zs \<Rightarrow> Inl Subquery_Returns_More_Than_One_Row)"

definition ex2_where :: "person list \<Rightarrow> person \<Rightarrow> bool" where
  "ex2_where people p = (Spouse_Id p = None \<and> spouse_subquery people p \<noteq> [])"

fun update_rows :: "person list \<Rightarrow> person list \<Rightarrow> sql_error + person list" where
  "update_rows snapshot [] = Inr []"
| "update_rows snapshot (p # ps) =
     (if ex2_where snapshot p
      then (case scalar_subquery (spouse_subquery snapshot p) of
              Inl e \<Rightarrow> Inl e
            | Inr v \<Rightarrow> (case update_rows snapshot ps of
                          Inl e \<Rightarrow> Inl e
                        | Inr ps' \<Rightarrow> Inr (p\<lparr>Spouse_Id := v\<rparr> # ps')))
      else (case update_rows snapshot ps of
              Inl e \<Rightarrow> Inl e
            | Inr ps' \<Rightarrow> Inr (p # ps')))"

definition ex2_update :: "person list \<Rightarrow> sql_error + person list" where
  "ex2_update people = update_rows people people"

text \<open>A table in which a brother is also the husband: both parents shared, and a spouse link.\<close>

definition sibling_spouses :: "person list" where
  "sibling_spouses =
    [mk_person 1 ''Cleopatra'' ''Ptolemy'' ''F'' (Some 10) (Some 11) (Some 2),
     mk_person 2 ''Ptolemy'' ''Ptolemy'' ''M'' (Some 10) (Some 11) None]"

text \<open>What the UPDATE does to one row when its scalar subquery does not fail.\<close>

definition ex2_set :: "person list \<Rightarrow> person \<Rightarrow> person" where
  "ex2_set snapshot p =
     (if ex2_where snapshot p
      then (case spouse_subquery snapshot p of [] \<Rightarrow> p | x # xs \<Rightarrow> p\<lparr>Spouse_Id := Some x\<rparr>)
      else p)"

section \<open>Properties of the two pages\<close>

lemmas io_defs = alert_def console_error_def console_warn_def fetch_issue_def fetch_settle_def

text \<open>
  The loop of \<^verbatim>\<open>submitNewOrder\<close>: it only adds lines to the console; when it ends without
  an exception, the lines it has added are warnings, one for each product it has skipped,
  and every item it has collected has a quantity greater than 0.
\<close>

lemma collect_items_state:
  "\<exists>entries. fst (collect_items js rows checked s items) = s\<lparr>console := console s @ entries\<rparr>"
proof (induction checked arbitrary: s items)
  case Nil
  have "fst (collect_items js rows [] s items) = s\<lparr>console := console s @ []\<rparr>"
    by simp
  then show ?case by blast
next
  case (Cons c cs)
  show ?case
  proof (cases "quantityInput js rows (checkbox_value c)")
    case Not_found
    then have "fst (collect_items js rows (c # cs) s items) =
        s\<lparr>console := console s @ [Console_error ''Uncaught TypeError'']\<rparr>"
      by (simp add: console_error_def)
    then show ?thesis by blast
  next
    case Invalid_selector
    then have "fst (collect_items js rows (c # cs) s items) =
        s\<lparr>console := console s @ [Console_error ''Uncaught SyntaxError'']\<rparr>"
      by (simp add: console_error_def)
    then show ?thesis by blast
  next
    case (Found input)
    show ?thesis
    proof (cases "num_gt (parseInt js (quantity_value input)) 0")
      case True
      then show ?thesis
        using Found Cons.IH by (simp add: Let_def)
    next
      case False
      let ?s = "console_warn (''Invalid quantity for '' @ checkbox_value c) s"
      obtain entries where
        "fst (collect_items js rows cs ?s items) = ?s\<lparr>console := console ?s @ entries\<rparr>"
        using Cons.IH by blast
      then have "fst (collect_items js rows (c # cs) s items) =
          s\<lparr>console := console s @ (Console_warn (''Invalid quantity for '' @ checkbox_value c) # entries)\<rparr>"
        using Found False by (simp add: Let_def console_warn_def)
      then show ?thesis by blast
    qed
  qed
qed

lemma collect_items_some:
  "collect_items js rows checked s items = (s1, Some ls) \<Longrightarrow>
   \<exists>new names.
     ls = items @ new \<and> (\<forall>l\<in>set new. num_gt (line_quantity l) 0) \<and>
     s1 = s\<lparr>console := console s @ map (\<lambda>name. Console_warn (''Invalid quantity for '' @ name)) names\<rparr>"
proof (induction checked arbitrary: s items)
  case Nil
  then have "ls = items @ [] \<and> (\<forall>l\<in>set ([] :: order_line list). num_gt (line_quantity l) 0) \<and>
      s1 = s\<lparr>console := console s @ map (\<lambda>name. Console_warn (''Invalid quantity for '' @ name)) []\<rparr>"
    by simp
  then show ?case by blast
next
  case (Cons c cs)
  show ?case
  proof (cases "quantityInput js rows (checkbox_value c)")
    case Not_found
    then show ?thesis using Cons.prems by simp
  next
    case Invalid_selector
    then show ?thesis using Cons.prems by simp
  next
    case (Found input)
    show ?thesis
    proof (cases "num_gt (parseInt js (quantity_value input)) 0")
      case True
      let ?l = "\<lparr>line_product_name = checkbox_value c,
                 line_quantity = parseInt js (quantity_value input),
                 line_price_per_item = parseFloat js (checkbox_data_price c)\<rparr>"
      have "collect_items js rows cs s (items @ [?l]) = (s1, Some ls)"
        using Cons.prems Found True by (simp add: Let_def)
      from Cons.IH [OF this] obtain new names where
        "ls = (items @ [?l]) @ new" "\<forall>l\<in>set new. num_gt (line_quantity l) 0"
        "s1 = s\<lparr>console := console s @ map (\<lambda>name. Console_warn (''Invalid quantity for '' @ name)) names\<rparr>"
        by blast
      then have "ls = items @ (?l # new) \<and> (\<forall>l\<in>set (?l # new). num_gt (line_quantity l) 0) \<and>
          s1 = s\<lparr>console := console s @ map (\<lambda>name. Console_warn (''Invalid quantity for '' @ name)) names\<rparr>"
        using True by simp
      then show ?thesis by blast
    next
      case False
      let ?s = "console_warn (''Invalid quantity for '' @ checkbox_value c) s"
      have "collect_items js rows cs ?s items = (s1, Some ls)"
        using Cons.prems Found False by (simp add: Let_def)
      from Cons.IH [OF this] obtain new names where
        "ls = items @ new" "\<forall>l\<in>set new. num_gt (line_quantity l) 0"
        "s1 = ?s\<lparr>console := console ?s @ map (\<lambda>name. Console_warn (''Invalid quantity for '' @ name)) names\<rparr>"
        by blast
      then have "ls = items @ new \<and> (\<forall>l\<in>set new. num_gt (line_quantity l) 0) \<and>
          s1 = s\<lparr>console := console s @ map (\<lambda>name. Console_warn (''Invalid quantity for '' @ name)) (checkbox_value c # names)\<rparr>"
        by (simp add: console_warn_def)
      then show ?thesis by blast
    qed
  qed
qed

text \<open>
  The ways \<^verbatim>\<open>submitNewOrder\<close> ends: one of its three validation alerts, an uncaught
  exception in the loop, or the POST, with at least one item and every item's quantity
  greater than 0.
\<close>

lemma submitNewOrder_cases:
  obtains
    (no_supplier) "n = []"
      "submitNewOrder js n r r2 s = alert ''Please select a supplier.'' s"
  | (none_checked) "n \<noteq> []"
      "submitNewOrder js n r r2 s = alert ''Please select at least one product to order.'' s"
  | (threw) entries where "n \<noteq> []"
      "submitNewOrder js n r r2 s = s\<lparr>console := console s @ entries\<rparr>"
  | (none_valid) names where "n \<noteq> []"
      "submitNewOrder js n r r2 s =
         alert ''Please ensure all selected products have a quantity greater than 0.''
           (s\<lparr>console := console s @ map (\<lambda>name. Console_warn (''Invalid quantity for '' @ name)) names\<rparr>)"
  | (posted) lines names where "n \<noteq> []" "lines \<noteq> []"
      "\<forall>l\<in>set lines. num_gt (line_quantity l) 0"
      "submitNewOrder js n r r2 s =
         submitNewOrder_response r r2
           (fetch_settle (create_order_request (orderPayload n lines))
              (fetch_issue (create_order_request (orderPayload n lines))
                 (s\<lparr>console := console s @ map (\<lambda>name. Console_warn (''Invalid quantity for '' @ name)) names\<rparr>)))"
proof (cases "n = []")
  case True
  then show ?thesis using no_supplier by (simp add: submitNewOrder_def)
next
  case n: False
  let ?rows = "panel_elements (productsForOrder s)"
  let ?checked = "checkedProducts ?rows"
  show ?thesis
  proof (cases "?checked = []")
    case True
    then show ?thesis using none_checked n by (simp add: submitNewOrder_def Let_def)
  next
    case checked: False
    obtain s1 result where ci: "collect_items js ?rows ?checked s [] = (s1, result)"
      by (cases "collect_items js ?rows ?checked s []") blast
    show ?thesis
    proof (cases result)
      case None
      obtain entries where
        "fst (collect_items js ?rows ?checked s []) = s\<lparr>console := console s @ entries\<rparr>"
        using collect_items_state by blast
      then have "s1 = s\<lparr>console := console s @ entries\<rparr>"
        using ci by simp
      then have "submitNewOrder js n r r2 s = s\<lparr>console := console s @ entries\<rparr>"
        using n checked ci None by (simp add: submitNewOrder_def Let_def)
      then show ?thesis using threw n by blast
    next
      case (Some ls)
      then have "collect_items js ?rows ?checked s [] = (s1, Some ls)"
        using ci by simp
      from collect_items_some [OF this] obtain new names where
        ls: "ls = [] @ new" and gt: "\<forall>l\<in>set new. num_gt (line_quantity l) 0" and
        s1: "s1 = s\<lparr>console := console s @ map (\<lambda>name. Console_warn (''Invalid quantity for '' @ name)) names\<rparr>"
        by blast
      show ?thesis
      proof (cases "ls = []")
        case True
        then have "submitNewOrder js n r r2 s =
            alert ''Please ensure all selected products have a quantity greater than 0.''
              (s\<lparr>console := console s @ map (\<lambda>name. Console_warn (''Invalid quantity for '' @ name)) names\<rparr>)"
          using n checked ci Some s1 by (simp add: submitNewOrder_def Let_def)
        then show ?thesis using none_valid n by blast
      next
        case False
        then have "submitNewOrder js n r r2 s =
            submitNewOrder_response r r2
              (fetch_settle (create_order_request (orderPayload n ls))
                 (fetch_issue (create_order_request (orderPayload n ls))
                    (s\<lparr>console := console s @ map (\<lambda>name. Console_warn (''Invalid quantity for '' @ name)) names\<rparr>)))"
          using n checked ci Some s1 by (simp add: submitNewOrder_def Let_def)
        then show ?thesis using posted [of ls names] n False gt ls by simp
      qed
    qed
  qed
qed

lemma loadAllOrders_net [simp]:
  "net (loadAllOrders r s) = net s @ [Issued orders_request, Settled orders_request]"
  by (simp add: loadAllOrders_def loadAllOrders_resume_def loadAllOrders_start_def
      loadAllOrders_catch_def io_defs Let_def split: fetch_result.splits sum.splits)

lemma loadAllOrders_alerts [simp]: "alerts (loadAllOrders r s) = alerts s"
  by (simp add: loadAllOrders_def loadAllOrders_resume_def loadAllOrders_start_def
      loadAllOrders_catch_def io_defs Let_def split: fetch_result.splits sum.splits)

lemma loadAllOrders_suppliersData [simp]: "suppliersData (loadAllOrders r s) = suppliersData s"
  by (simp add: loadAllOrders_def loadAllOrders_resume_def loadAllOrders_start_def
      loadAllOrders_catch_def io_defs Let_def split: fetch_result.splits sum.splits)


lemma add_supplier_option_frame:
  "alerts (foldl add_supplier_option s xs) = alerts s \<and>
   net (foldl add_supplier_option s xs) = net s \<and>
   suppliersData (foldl add_supplier_option s xs) = suppliersData s"
  by (induction xs arbitrary: s)
     (auto simp: add_supplier_option_def io_defs split: option.splits)

lemma fetchSuppliers_net [simp]:
  "net (fetchSuppliers r s) = net s @ [Issued suppliers_request, Settled suppliers_request]"
  by (simp add: fetchSuppliers_def fetchSuppliers_resume_def fetchSuppliers_start_def
      fetchSuppliers_catch_def io_defs Let_def add_supplier_option_frame
      split: fetch_result.splits sum.splits option.splits suppliers_value.splits)

lemma fetchSuppliers_alerts [simp]: "alerts (fetchSuppliers r s) = alerts s"
  by (simp add: fetchSuppliers_def fetchSuppliers_resume_def fetchSuppliers_start_def
      fetchSuppliers_catch_def io_defs Let_def add_supplier_option_frame
      split: fetch_result.splits sum.splits option.splits suppliers_value.splits)


lemma fetchSuppliers_suppliersData:
  "suppliersData (fetchSuppliers r s) =
     (case r of
        NetworkError m \<Rightarrow> suppliersData s
      | Response st txt body \<Rightarrow>
          (case body of
             Inl m \<Rightarrow> suppliersData s
           | Inr data \<Rightarrow>
               if response_ok st
               then (case body_suppliers data of None \<Rightarrow> Supplier_array [] | Some v \<Rightarrow> v)
               else suppliersData s))"
  by (simp add: fetchSuppliers_def fetchSuppliers_resume_def fetchSuppliers_start_def
      fetchSuppliers_catch_def io_defs Let_def add_supplier_option_frame
      split: fetch_result.splits sum.splits option.splits suppliers_value.splits)

lemma submitNewOrder_response_net:
  "net (submitNewOrder_response r r2 s) =
     net s @ (if failed r then [] else [Issued orders_request, Settled orders_request])"
  by (simp add: submitNewOrder_response_def submitNewOrder_catch_def failed_def io_defs Let_def
      split: fetch_result.splits sum.splits)

lemma submitNewOrder_response_suppliersData:
  "suppliersData (submitNewOrder_response r r2 s) = suppliersData s"
  by (simp add: submitNewOrder_response_def submitNewOrder_catch_def io_defs Let_def
      split: fetch_result.splits sum.splits)


lemma markOrderComplete_response_net:
  "net (markOrderComplete_response r r2 s) =
     net s @ (if failed r then [] else [Issued orders_request, Settled orders_request])"
  by (simp add: markOrderComplete_response_def markOrderComplete_catch_def failed_def io_defs
      split: fetch_result.splits sum.splits)

lemma markOrderComplete_response_suppliersData:
  "suppliersData (markOrderComplete_response r r2 s) = suppliersData s"
  by (simp add: markOrderComplete_response_def markOrderComplete_catch_def io_defs
      split: fetch_result.splits sum.splits)


lemma submitNewOrder_suppliersData:
  "suppliersData (submitNewOrder js n r r2 s) = suppliersData s"
  by (rule submitNewOrder_cases [of n js r r2 s])
     (simp_all add: submitNewOrder_response_suppliersData io_defs)

lemma markOrderComplete_suppliersData:
  "suppliersData (markOrderComplete confirmed orderRefId r r2 s) = suppliersData s"
  by (simp add: markOrderComplete_def Let_def markOrderComplete_response_suppliersData io_defs)

lemma displayProductsForOrder_suppliersData:
  "suppliersData (displayProductsForOrder js n s) = suppliersData s"
  by (simp add: displayProductsForOrder_def Let_def io_defs
      split: option.splits suppliers_value.splits)

text \<open>
  A response whose \<^verbatim>\<open>suppliers\<close> is not an array: the assignment has been made when
  \<^verbatim>\<open>forEach\<close> throws, and the \<^verbatim>\<open>catch\<close> block writes the error option.
\<close>

lemma fetchSuppliers_not_an_array:
  "suppliersData (fetchSuppliers suppliers_not_an_array owner_init) = Not_an_array \<and>
   console (fetchSuppliers suppliers_not_an_array owner_init) =
     [Console_error ''Error fetching suppliers:''] \<and>
   supplierSelect (fetchSuppliers suppliers_not_an_array owner_init) =
     [\<lparr>option_value = [], option_text = ''Error loading suppliers'', option_supplierInfo = None\<rparr>]"
  by (simp add: suppliers_not_an_array_def owner_init_def fetchSuppliers_def fetchSuppliers_resume_def
      fetchSuppliers_start_def fetchSuppliers_catch_def io_defs Let_def response_ok_def)

text \<open>
  Claim C7: the owner page's state has one script variable, \<open>suppliersData\<close>; everything else
  is the page. \<open>fetchSuppliers\<close> is the one operation that assigns it: when the response is
  ok and its body parses, to \<^verbatim>\<open>data.suppliers || []\<close>, whatever \<^verbatim>\<open>data.suppliers\<close> is (the
  assignment comes before the \<^verbatim>\<open>forEach\<close> that throws on a value that is not an array),
  and not at all otherwise; \<open>displayProductsForOrder\<close>, \<open>submitNewOrder\<close>, \<open>loadAllOrders\<close>
  and \<open>markOrderComplete\<close> leave it as it was.
\<close>

theorem suppliersData_assigned_only_by_fetchSuppliers:
  "suppliersData (displayProductsForOrder js n s) = suppliersData s \<and>
   suppliersData (submitNewOrder js n r r2 s) = suppliersData s \<and>
   suppliersData (loadAllOrders r2 s) = suppliersData s \<and>
   suppliersData (markOrderComplete confirmed orderRefId r r2 s) = suppliersData s \<and>
   suppliersData (fetchSuppliers r1 s) =
     (case r1 of
        NetworkError m \<Rightarrow> suppliersData s
      | Response st txt body \<Rightarrow>
          (case body of
             Inl m \<Rightarrow> suppliersData s
           | Inr data \<Rightarrow>
               if response_ok st
               then (case body_suppliers data of None \<Rightarrow> Supplier_array [] | Some v \<Rightarrow> v)
               else suppliersData s))"
  using displayProductsForOrder_suppliersData submitNewOrder_suppliersData
    loadAllOrders_suppliersData markOrderComplete_suppliersData fetchSuppliers_suppliersData
  by blast

lemma issued_append [simp]: "issued (xs @ ys) = issued xs @ issued ys"
  by (simp add: issued_def)

lemma issued_simps [simp]:
  "issued [] = []" "issued (Issued r # es) = r # issued es" "issued (Settled r # es) = issued es"
  by (simp_all add: issued_def)

lemma sent_since_same: "net h = net s \<Longrightarrow> sent_since s h = []"
  by (simp add: sent_since_def)

lemma sent_since_append: "net h = net s @ es \<Longrightarrow> sent_since s h = issued es"
  by (simp add: sent_since_def)

lemma submitNewOrder_net:
  "net (submitNewOrder js n r r2 s) = net s \<or>
   (\<exists>lines. lines \<noteq> [] \<and> (\<forall>l\<in>set lines. num_gt (line_quantity l) 0) \<and>
      net (submitNewOrder js n r r2 s) =
        net s @ [Issued (create_order_request (orderPayload n lines)),
                 Settled (create_order_request (orderPayload n lines))] @
        (if failed r then [] else [Issued orders_request, Settled orders_request]))"
proof (cases rule: submitNewOrder_cases [of n js r r2 s])
  case no_supplier
  then show ?thesis by (simp add: io_defs)
next
  case none_checked
  then show ?thesis by (simp add: io_defs)
next
  case (threw entries)
  then show ?thesis by simp
next
  case (none_valid names)
  then show ?thesis by (simp add: io_defs)
next
  case (posted lines names)
  then have "lines \<noteq> [] \<and> (\<forall>l\<in>set lines. num_gt (line_quantity l) 0) \<and>
      net (submitNewOrder js n r r2 s) =
        net s @ [Issued (create_order_request (orderPayload n lines)),
                 Settled (create_order_request (orderPayload n lines))] @
        (if failed r then [] else [Issued orders_request, Settled orders_request])"
    by (simp add: submitNewOrder_response_net io_defs)
  then show ?thesis by blast
qed

text \<open>
  On rows that are the template's, with distinct plain product names, the selector finds
  the quantity input of the checked row itself.
\<close>

lemma find_own_row:
  "distinct (map f rows) \<Longrightarrow> c \<in> set rows \<Longrightarrow> find (\<lambda>r. f r = f c) rows = Some c"
proof (induction rows)
  case Nil
  then show ?case by simp
next
  case (Cons a rows)
  then show ?case by (cases "a = c") (auto simp: image_iff)
qed

lemma quantityInput_own_row:
  assumes "template_rows rows" and "c \<in> set rows"
  shows "quantityInput js rows (checkbox_value c) = Found c"
proof -
  have plain: "plain_text (checkbox_value c)"
    using assms by (auto simp: template_rows_def list_all_iff)
  have names: "\<And>r. r \<in> set rows \<Longrightarrow> quantity_name r = ''quantity_'' @ checkbox_value r"
    using assms(1) by (auto simp: template_rows_def list_all_iff)
  have "find (\<lambda>r. quantity_name r = ''quantity_'' @ checkbox_value c) rows =
      find (\<lambda>r. checkbox_value r = checkbox_value c) rows"
    by (rule find_cong) (simp_all add: names)
  also have "\<dots> = Some c"
    using assms by (intro find_own_row) (simp_all add: template_rows_def)
  finally show ?thesis
    using plain by (simp add: quantityInput_def)
qed

lemma collect_items_template:
  assumes "template_rows rows"
  shows "set checked \<subseteq> set rows \<Longrightarrow>
     collect_items js rows checked s items =
       (s\<lparr>console := console s @ own_warnings js checked\<rparr>, Some (items @ own_lines js checked))"
proof (induction checked arbitrary: s items)
  case Nil
  then show ?case by (simp add: own_warnings_def own_lines_def)
next
  case (Cons c cs)
  then have c: "c \<in> set rows" and cs: "set cs \<subseteq> set rows" by auto
  show ?case
    using quantityInput_own_row [OF assms c] Cons.IH [OF cs]
    by (simp add: Let_def own_line_def own_warnings_def own_lines_def console_warn_def)
qed

lemma checkedProducts_subset: "set (checkedProducts rows) \<subseteq> set rows"
  by (auto simp: checkedProducts_def)

lemma submitNewOrder_template:
  assumes "template_rows (panel_elements (productsForOrder s))"
  shows "submitNewOrder js n r r2 s =
     (let checked = checkedProducts (panel_elements (productsForOrder s));
          lines = own_lines js checked;
          s1 = s\<lparr>console := console s @ own_warnings js checked\<rparr>
      in if n = [] then alert ''Please select a supplier.'' s
         else if checked = [] then alert ''Please select at least one product to order.'' s
         else if lines = []
           then alert ''Please ensure all selected products have a quantity greater than 0.'' s1
         else submitNewOrder_response r r2
                (fetch_settle (create_order_request (orderPayload n lines))
                   (fetch_issue (create_order_request (orderPayload n lines)) s1)))"
  by (simp add: submitNewOrder_def Let_def collect_items_template [OF assms checkedProducts_subset])

lemma own_lines_empty_iff:
  "own_lines js checked = [] \<longleftrightarrow> (\<forall>c\<in>set checked. \<not> num_gt (parseInt js (quantity_value c)) 0)"
  by (simp add: own_lines_def filter_empty_conv)

text \<open>
  The order form of a supplier whose product names are plain and distinct, and whose
  prices are written as plain text, has the template's rows; checking a box and typing a
  quantity keep them so.
\<close>

lemma displayProductsForOrder_template_rows:
  assumes "suppliersData s = Supplier_array entries"
    and "find_supplier n entries = Some (Some sp)" and "supplier_products sp = Some ps"
    and "n \<noteq> []"
    and "distinct (map product_name ps)"
    and "\<forall>p\<in>set ps. plain_text (product_name p) \<and> plain_text (numberToString js (price_per_item p)) \<and>
           plain_text (toFixed2 js (price_per_item p))"
  shows "template_rows (panel_elements (productsForOrder (displayProductsForOrder js n s)))"
proof -
  have rows: "concat (map (product_rows js) ps) = map (product_item js) ps"
    using assms(6) by (induction ps) (simp_all add: product_rows_def)
  have "panel_elements (productsForOrder (displayProductsForOrder js n s)) = map (product_item js) ps"
    using assms(1-4) rows by (simp add: displayProductsForOrder_def Let_def panel_elements_def)
  moreover have "map checkbox_value (map (product_item js) ps) = map product_name ps"
    by (simp add: product_item_def)
  ultimately show ?thesis
    using assms(5,6) by (simp add: template_rows_def list_all_iff product_item_def comp_def)
qed

lemma on_row_template_rows:
  assumes "template_rows (panel_elements (productsForOrder s))"
  shows "template_rows (panel_elements (productsForOrder (on_row i checkbox_change s)))"
    and "template_rows (panel_elements (productsForOrder (on_row i (type_quantity typed) s)))"
proof -
  have keep: "template_rows (rows[i := event (rows ! i)])"
    if "template_rows rows" and "i < length rows"
      and "\<And>r. checkbox_value (event r) = checkbox_value r"
      and "\<And>r. quantity_name (event r) = quantity_name r"
    for rows :: "product_order_item list" and event
  proof -
    have "map checkbox_value (rows[i := event (rows ! i)]) = map checkbox_value rows"
      using that(2,3) by (simp add: map_update list_update_same_conv)
    moreover have "\<forall>r\<in>set (rows[i := event (rows ! i)]).
        plain_text (checkbox_value r) \<and> quantity_name r = ''quantity_'' @ checkbox_value r"
    proof
      fix r assume "r \<in> set (rows[i := event (rows ! i)])"
      then have "r \<in> set rows \<or> r = event (rows ! i)"
        using set_update_subset_insert [of rows i "event (rows ! i)"] by auto
      moreover have "rows ! i \<in> set rows" using that(2) by simp
      ultimately show "plain_text (checkbox_value r) \<and> quantity_name r = ''quantity_'' @ checkbox_value r"
        using that(1,3,4) by (auto simp: template_rows_def list_all_iff)
    qed
    ultimately show ?thesis
      using that(1) by (simp add: template_rows_def list_all_iff)
  qed
  show "template_rows (panel_elements (productsForOrder (on_row i checkbox_change s)))"
    using assms keep [of _ checkbox_change]
    by (cases "productsForOrder s")
       (simp_all add: on_row_def panel_elements_def checkbox_change_def Let_def)
  show "template_rows (panel_elements (productsForOrder (on_row i (type_quantity typed) s)))"
    using assms keep [of _ "type_quantity typed"]
    by (cases "productsForOrder s")
       (simp_all add: on_row_def panel_elements_def type_quantity_def)
qed

text \<open>
  On such a form \<^verbatim>\<open>submitNewOrder\<close> sends the POST to \<^verbatim>\<open>/orders/\<close> exactly when a supplier
  is selected and the quantity typed for at least one checked product parses to more than
  0; the body lists the checked products whose own quantity is more than 0, each with that
  quantity; and in the three other cases it shows the validation alert of the case and
  sends nothing.
\<close>

lemma submitNewOrder_with_distinct_plain_names:
  assumes "template_rows (panel_elements (productsForOrder s))"
  shows
    "((\<exists>req\<in>set (sent_since s (submitNewOrder js n r r2 s)).
         req_method req = POST \<and> req_url req = API_URL @ ''/orders/'')
       \<longleftrightarrow> n \<noteq> [] \<and>
           (\<exists>c\<in>set (checkedProducts (panel_elements (productsForOrder s))).
              num_gt (parseInt js (quantity_value c)) 0)) \<and>
     (\<forall>req\<in>set (sent_since s (submitNewOrder js n r r2 s)).
        req_method req = POST \<longrightarrow>
          req_body req = Some (JObject
            [(''supplier_name'', JString n),
             (''items'', JArray
                (map (\<lambda>c. JObject [(''product_name'', JString (checkbox_value c)),
                                    (''quantity'', JNumber (parseInt js (quantity_value c))),
                                    (''price_per_item'', JNumber (parseFloat js (checkbox_data_price c)))])
                   (filter (\<lambda>c. num_gt (parseInt js (quantity_value c)) 0)
                      (checkedProducts (panel_elements (productsForOrder s))))))])) \<and>
     (n = [] \<longrightarrow>
        net (submitNewOrder js n r r2 s) = net s \<and>
        alerts (submitNewOrder js n r r2 s) = alerts s @ [''Please select a supplier.'']) \<and>
     (n \<noteq> [] \<and> checkedProducts (panel_elements (productsForOrder s)) = [] \<longrightarrow>
        net (submitNewOrder js n r r2 s) = net s \<and>
        alerts (submitNewOrder js n r r2 s) =
          alerts s @ [''Please select at least one product to order.'']) \<and>
     (n \<noteq> [] \<and> checkedProducts (panel_elements (productsForOrder s)) \<noteq> [] \<and>
      (\<forall>c\<in>set (checkedProducts (panel_elements (productsForOrder s))).
         \<not> num_gt (parseInt js (quantity_value c)) 0) \<longrightarrow>
        net (submitNewOrder js n r r2 s) = net s \<and>
        alerts (submitNewOrder js n r r2 s) =
          alerts s @ [''Please ensure all selected products have a quantity greater than 0.''])"
proof -
  let ?checked = "checkedProducts (panel_elements (productsForOrder s))"
  let ?lines = "own_lines js ?checked"
  let ?h = "submitNewOrder js n r r2 s"
  let ?req = "create_order_request (orderPayload n ?lines)"
  note eq = submitNewOrder_template [OF assms, of js n r r2]
  have none: "?lines = [] \<longleftrightarrow> (\<forall>c\<in>set ?checked. \<not> num_gt (parseInt js (quantity_value c)) 0)"
    by (rule own_lines_empty_iff)
  have checked_empty: "?checked = [] \<Longrightarrow> ?lines = []"
    by (simp add: own_lines_def)
  have net: "net ?h = net s @
      (if n = [] \<or> ?lines = [] then []
       else [Issued ?req, Settled ?req] @
            (if failed r then [] else [Issued orders_request, Settled orders_request]))"
    using checked_empty
    by (auto simp: eq Let_def submitNewOrder_response_net io_defs)
  have iss: "sent_since s ?h =
      (if n = [] \<or> ?lines = [] then [] else ?req # (if failed r then [] else [orders_request]))"
    unfolding sent_since_append [OF net] by simp
  have body: "req_body ?req = Some (JObject
            [(''supplier_name'', JString n),
             (''items'', JArray
                (map (\<lambda>c. JObject [(''product_name'', JString (checkbox_value c)),
                                    (''quantity'', JNumber (parseInt js (quantity_value c))),
                                    (''price_per_item'', JNumber (parseFloat js (checkbox_data_price c)))])
                   (filter (\<lambda>c. num_gt (parseInt js (quantity_value c)) 0) ?checked)))])"
    by (simp add: create_order_request_def orderPayload_def own_lines_def own_line_def line_json_def
        comp_def)
  have post: "(\<exists>req\<in>set (sent_since s ?h). req_method req = POST \<and> req_url req = API_URL @ ''/orders/'')
      \<longleftrightarrow> n \<noteq> [] \<and> (\<exists>c\<in>set ?checked. num_gt (parseInt js (quantity_value c)) 0)"
    unfolding iss using none by (auto simp: create_order_request_def orders_request_def)
  have sent: "\<forall>req\<in>set (sent_since s ?h). req_method req = POST \<longrightarrow> req = ?req"
    unfolding iss by (auto simp: orders_request_def split: if_splits)
  have sent_body: "\<forall>req\<in>set (sent_since s ?h).
        req_method req = POST \<longrightarrow>
          req_body req = Some (JObject
            [(''supplier_name'', JString n),
             (''items'', JArray
                (map (\<lambda>c. JObject [(''product_name'', JString (checkbox_value c)),
                                    (''quantity'', JNumber (parseInt js (quantity_value c))),
                                    (''price_per_item'', JNumber (parseFloat js (checkbox_data_price c)))])
                   (filter (\<lambda>c. num_gt (parseInt js (quantity_value c)) 0) ?checked)))])"
  proof (intro ballI impI)
    fix req assume "req \<in> set (sent_since s ?h)" and "req_method req = POST"
    then have "req = ?req" using sent by blast
    then show "req_body req = Some (JObject
            [(''supplier_name'', JString n),
             (''items'', JArray
                (map (\<lambda>c. JObject [(''product_name'', JString (checkbox_value c)),
                                    (''quantity'', JNumber (parseInt js (quantity_value c))),
                                    (''price_per_item'', JNumber (parseFloat js (checkbox_data_price c)))])
                   (filter (\<lambda>c. num_gt (parseInt js (quantity_value c)) 0) ?checked)))])"
      using body by simp
  qed
  have inv1: "n = [] \<longrightarrow>
        net ?h = net s \<and> alerts ?h = alerts s @ [''Please select a supplier.'']"
    by (simp add: submitNewOrder_def io_defs)
  have inv2: "n \<noteq> [] \<and> ?checked = [] \<longrightarrow>
        net ?h = net s \<and> alerts ?h = alerts s @ [''Please select at least one product to order.'']"
    by (simp add: submitNewOrder_def Let_def io_defs)
  have inv3: "n \<noteq> [] \<and> ?checked \<noteq> [] \<and>
      (\<forall>c\<in>set ?checked. \<not> num_gt (parseInt js (quantity_value c)) 0) \<longrightarrow>
        net ?h = net s \<and>
        alerts ?h = alerts s @ [''Please ensure all selected products have a quantity greater than 0.'']"
  proof (intro impI)
    assume a: "n \<noteq> [] \<and> ?checked \<noteq> [] \<and>
      (\<forall>c\<in>set ?checked. \<not> num_gt (parseInt js (quantity_value c)) 0)"
    then have "?lines = []" using none by blast
    then have "?h = alert ''Please ensure all selected products have a quantity greater than 0.''
        (s\<lparr>console := console s @ own_warnings js ?checked\<rparr>)"
      using a by (simp add: eq Let_def)
    then show "net ?h = net s \<and>
        alerts ?h = alerts s @ [''Please ensure all selected products have a quantity greater than 0.'']"
      by (simp add: io_defs)
  qed
  show ?thesis
    by (intro conjI post sent_body inv1 inv2 inv3)
qed

lemma show_whole_examples:
  "show_whole 1 = ''1''" "show_whole 5 = ''5''" "show_whole 12 = ''12''"
  by (simp_all add: show_whole_def show_nat.simps char_of_def bit_Suc_0_iff)

text \<open>
  Claim C3 fails on the code: the loop looks a checked product's quantity up by the
  product's name, with \<^verbatim>\<open>querySelector(`input[name="quantity_${productName}"]`)\<close>, and
  gets the first input of that name. Here a supplier has two products named \<^verbatim>\<open>bolt\<close>; the
  second is checked, with quantity 4, the first is not and its input is empty. A supplier
  is selected and a checked product has a quantity greater than 0, yet the handler parses
  the empty input of the first row, warns, shows the alert of the case where every
  quantity is invalid, and sends nothing.
\<close>

theorem submitNewOrder_duplicate_names_sends_nothing:
  "panel_elements (productsForOrder duplicate_names_page) =
     [\<lparr>checkbox_value = ''bolt'', checkbox_data_price = ''5'', checkbox_checked = False,
       quantity_name = ''quantity_bolt'', quantity_value = [], quantity_disabled = True\<rparr>,
      \<lparr>checkbox_value = ''bolt'', checkbox_data_price = ''12'', checkbox_checked = True,
       quantity_name = ''quantity_bolt'', quantity_value = ''4'', quantity_disabled = False\<rparr>] \<and>
   parseInt example_js ''4'' = Fin 4 \<and>
   net (submitNewOrder example_js ''Acme'' r r2 duplicate_names_page) = net duplicate_names_page \<and>
   sent_since duplicate_names_page (submitNewOrder example_js ''Acme'' r r2 duplicate_names_page) = [] \<and>
   alerts (submitNewOrder example_js ''Acme'' r r2 duplicate_names_page) =
     [''Please ensure all selected products have a quantity greater than 0.''] \<and>
   console (submitNewOrder example_js ''Acme'' r r2 duplicate_names_page) =
     [Console_warn ''Invalid quantity for bolt'']"
proof -
  have page: "duplicate_names_page =
      \<lparr>alerts = [], console = [], net = [Issued suppliers_request, Settled suppliers_request],
       suppliersData = Supplier_array
         [Some \<lparr>company_name = Some ''Acme'', supplier_products = Some
            [\<lparr>product_name = ''bolt'', price_per_item = 5\<rparr>,
             \<lparr>product_name = ''bolt'', price_per_item = 12\<rparr>]\<rparr>],
       supplierSelect =
         [\<lparr>option_value = [], option_text = ''Select supplier...'', option_supplierInfo = None\<rparr>,
          \<lparr>option_value = ''Acme'', option_text = ''Acme'', option_supplierInfo =
             Some \<lparr>company_name = Some ''Acme'', supplier_products = Some
               [\<lparr>product_name = ''bolt'', price_per_item = 5\<rparr>,
                \<lparr>product_name = ''bolt'', price_per_item = 12\<rparr>]\<rparr>\<rparr>],
       productsForOrder = Elements
         [\<lparr>checkbox_value = ''bolt'', checkbox_data_price = ''5'', checkbox_checked = False,
           quantity_name = ''quantity_bolt'', quantity_value = [], quantity_disabled = True\<rparr>,
          \<lparr>checkbox_value = ''bolt'', checkbox_data_price = ''12'', checkbox_checked = True,
           quantity_name = ''quantity_bolt'', quantity_value = ''4'', quantity_disabled = False\<rparr>],
       allOrdersList = Elements [], newOrderForm_resets = 0, styleSheet_accessible = True\<rparr>"
    by (simp add: duplicate_names_page_def duplicate_products_def owner_init_def
        fetchSuppliers_def fetchSuppliers_resume_def fetchSuppliers_start_def
        add_supplier_option_def displayProductsForOrder_def product_rows_def product_item_def
        on_row_def checkbox_change_def type_quantity_def example_js_def show_whole_examples
        plain_text_def plain_char_def response_ok_def io_defs Let_def)
  have four: "parseInt example_js ''4'' = Fin 4"
    by (simp add: example_js_def parse_digits_def)
  have run: "submitNewOrder example_js ''Acme'' r r2 duplicate_names_page =
      duplicate_names_page\<lparr>console := [Console_warn ''Invalid quantity for bolt''],
        alerts := [''Please ensure all selected products have a quantity greater than 0.'']\<rparr>"
    unfolding page
    by (simp add: submitNewOrder_def panel_elements_def checkedProducts_def quantityInput_def
        plain_text_def plain_char_def example_js_def parse_digits_def num_gt_def io_defs Let_def)
  have rows: "panel_elements (productsForOrder duplicate_names_page) =
     [\<lparr>checkbox_value = ''bolt'', checkbox_data_price = ''5'', checkbox_checked = False,
       quantity_name = ''quantity_bolt'', quantity_value = [], quantity_disabled = True\<rparr>,
      \<lparr>checkbox_value = ''bolt'', checkbox_data_price = ''12'', checkbox_checked = True,
       quantity_name = ''quantity_bolt'', quantity_value = ''4'', quantity_disabled = False\<rparr>]"
    unfolding page by (simp add: panel_elements_def)
  have net: "net (submitNewOrder example_js ''Acme'' r r2 duplicate_names_page) = net duplicate_names_page"
    unfolding run by simp
  have out: "alerts (submitNewOrder example_js ''Acme'' r r2 duplicate_names_page) =
       [''Please ensure all selected products have a quantity greater than 0.''] \<and>
     console (submitNewOrder example_js ''Acme'' r r2 duplicate_names_page) =
       [Console_warn ''Invalid quantity for bolt'']"
    unfolding run by simp
  show ?thesis
    using rows four net sent_since_same [OF net] out by blast
qed

lemma collect_products_eq:
  "collect_products js entries s products formIsValid =
     (s\<lparr>console := console s @ concat (map (entry_warning js) entries)\<rparr>,
      products @ map (entry_product js) (filter (row_filled js) entries),
      formIsValid \<and> (\<forall>e\<in>set entries. row_filled js e))"
proof (induction entries arbitrary: s products formIsValid)
  case Nil
  then show ?case by simp
next
  case (Cons e es)
  show ?case
  proof (cases "row_filled js e")
    case True
    then obtain n p q where e: "product_name_input e = Some n" "product_price_input e = Some p"
        "product_min_qty_input e = Some q"
        "valid_product (trim n) (parseFloat js p) (parseInt js q)"
      by (auto simp: row_filled_def valid_product_def isNaN_def split: option.splits)
    then show ?thesis
      using True Cons.IH by (simp add: entry_warning_def entry_product_def)
  next
    case False
    show ?thesis
    proof (cases "entry_complete e")
      case True
      then obtain n p q where e: "product_name_input e = Some n" "product_price_input e = Some p"
          "product_min_qty_input e = Some q"
        by (auto simp: entry_complete_def)
      then have "\<not> valid_product (trim n) (parseFloat js p) (parseInt js q)"
        using False by (auto simp: row_filled_def valid_product_def isNaN_def)
      then show ?thesis
        using e False True Cons.IH by (simp add: entry_warning_def console_warn_def)
    next
      case incomplete: False
      have nf: "\<not> row_filled js e"
        by (rule False)
      show ?thesis
      proof (cases "product_name_input e")
        case None
        then show ?thesis
          using nf incomplete Cons.IH by (simp add: entry_warning_def console_warn_def)
      next
        case n: (Some n)
        show ?thesis
        proof (cases "product_price_input e")
          case None
          then show ?thesis
            using n nf incomplete Cons.IH by (simp add: entry_warning_def console_warn_def)
        next
          case p: (Some p)
          then have "product_min_qty_input e = None"
            using n incomplete by (simp add: entry_complete_def)
          then show ?thesis
            using n p nf incomplete Cons.IH by (simp add: entry_warning_def console_warn_def)
        qed
      qed
    qed
  qed
qed

lemma registerFormSubmitHandler_eq:
  "registerFormSubmitHandler js companyName phone representativeName r s =
     (let entries = productsList s;
          s1 = s\<lparr>console := console s @ concat (map (entry_warning js) entries)\<rparr>;
          req = register_request
                  (register_payload companyName phone representativeName (map (entry_product js) entries))
      in if \<not> (\<forall>e\<in>set entries. row_filled js e)
         then alert ''Please ensure all product fields (Name, Price >= 0, Min Qty >= 1) are correctly filled.'' s1
         else if entries = [] then alert ''Please add at least one valid product.'' s1
         else register_response r (fetch_settle req (fetch_issue req s1)))"
proof (cases "\<forall>e\<in>set (productsList s). row_filled js e")
  case True
  then have "filter (row_filled js) (productsList s) = productsList s"
    by (simp add: filter_id_conv)
  then show ?thesis
    using True by (simp add: registerFormSubmitHandler_def collect_products_eq Let_def)
next
  case False
  then show ?thesis
    by (simp add: registerFormSubmitHandler_def collect_products_eq Let_def)
qed

lemma register_response_net: "net (register_response r s) = net s"
  by (simp add: register_response_def register_catch_def io_defs Let_def
      split: fetch_result.splits sum.splits)


lemma registerFormSubmitHandler_issued:
  assumes "net s = []"
  shows "issued (net (registerFormSubmitHandler js c p rn r s)) =
     (if (\<forall>e\<in>set (productsList s). row_filled js e) \<and> productsList s \<noteq> []
      then [register_request (register_payload c p rn (map (entry_product js) (productsList s)))]
      else [])"
  using assms
  by (simp add: registerFormSubmitHandler_eq Let_def register_response_net io_defs)

lemma registerFormSubmitHandler_invalid:
  assumes "net s = []"
  shows "(\<not> (\<forall>e\<in>set (productsList s). row_filled js e) \<longrightarrow>
            net (registerFormSubmitHandler js c p rn r s) = [] \<and>
            alerts (registerFormSubmitHandler js c p rn r s) = alerts s @
              [''Please ensure all product fields (Name, Price >= 0, Min Qty >= 1) are correctly filled.'']) \<and>
         ((\<forall>e\<in>set (productsList s). row_filled js e) \<and> productsList s = [] \<longrightarrow>
            net (registerFormSubmitHandler js c p rn r s) = [] \<and>
            alerts (registerFormSubmitHandler js c p rn r s) = alerts s @
              [''Please add at least one valid product.''])"
  using assms by (simp add: registerFormSubmitHandler_eq Let_def io_defs)

lemma entry_product_filled:
  "row_filled js e \<Longrightarrow>
   \<exists>n p q. product_name_input e = Some n \<and> product_price_input e = Some p \<and>
     product_min_qty_input e = Some q \<and>
     entry_product js e = \<lparr>new_product_name = trim n, new_price_per_item = parseFloat js p,
                            new_minimum_quantity = parseInt js q\<rparr>"
  by (auto simp: row_filled_def entry_product_def split: option.splits)

text \<open>
  Claim C5: the registration handler sends the POST to \<^verbatim>\<open>/suppliers/register\<close> exactly when
  every \<^verbatim>\<open>.product-entry\<close> row is completely and validly filled (non-empty trimmed name,
  price a number at least 0, minimum quantity a number at least 1, both as parsed) and at
  least one valid product was collected; otherwise it shows an alert and sends nothing.
  The body sent is the object with \<^verbatim>\<open>company_name\<close>, \<^verbatim>\<open>phone\<close>, \<^verbatim>\<open>representative_name\<close>
  and \<^verbatim>\<open>products\<close>, and \<^verbatim>\<open>products\<close> is an array with one entry per row, in order, the
  entry of a row being the object with the fields \<^verbatim>\<open>product_name\<close>, \<^verbatim>\<open>price_per_item\<close> and
  \<^verbatim>\<open>minimum_quantity\<close> read from that row.
\<close>

theorem registration_posts_iff_all_rows_valid:
  assumes "net s = []"
  shows
    "((\<exists>req\<in>set (issued (net (registerFormSubmitHandler js c p rn r s))).
         req_method req = POST \<and> req_url req = API_URL @ ''/suppliers/register'')
       \<longleftrightarrow> (\<forall>e\<in>set (productsList s). row_filled js e) \<and>
           (\<exists>e\<in>set (productsList s). row_filled js e)) \<and>
     (\<not> (\<forall>e\<in>set (productsList s). row_filled js e) \<longrightarrow>
        net (registerFormSubmitHandler js c p rn r s) = [] \<and>
        alerts (registerFormSubmitHandler js c p rn r s) = alerts s @
          [''Please ensure all product fields (Name, Price >= 0, Min Qty >= 1) are correctly filled.'']) \<and>
     ((\<forall>e\<in>set (productsList s). row_filled js e) \<and>
      \<not> (\<exists>e\<in>set (productsList s). row_filled js e) \<longrightarrow>
        net (registerFormSubmitHandler js c p rn r s) = [] \<and>
        alerts (registerFormSubmitHandler js c p rn r s) = alerts s @
          [''Please add at least one valid product.'']) \<and>
     (\<forall>req\<in>set (issued (net (registerFormSubmitHandler js c p rn r s))).
        \<exists>elements.
          req_body req = Some (JObject
            [(''company_name'', JString c), (''phone'', JString p),
             (''representative_name'', JString rn), (''products'', JArray elements)]) \<and>
          length elements = length (productsList s) \<and>
          (\<forall>i<length elements.
             \<exists>name_value price_value min_qty_value.
               product_name_input (productsList s ! i) = Some name_value \<and>
               product_price_input (productsList s ! i) = Some price_value \<and>
               product_min_qty_input (productsList s ! i) = Some min_qty_value \<and>
               elements ! i = JObject
                 [(''product_name'', JString (trim name_value)),
                  (''price_per_item'', JNumber (parseFloat js price_value)),
                  (''minimum_quantity'', JNumber (parseInt js min_qty_value))]))"
proof -
  let ?h = "registerFormSubmitHandler js c p rn r s"
  let ?entries = "productsList s"
  let ?all = "\<forall>e\<in>set ?entries. row_filled js e"
  have some: "?all \<Longrightarrow> (\<exists>e\<in>set ?entries. row_filled js e) \<longleftrightarrow> ?entries \<noteq> []"
    by (cases ?entries) auto
  have iss: "issued (net ?h) =
      (if ?all \<and> ?entries \<noteq> []
       then [register_request (register_payload c p rn (map (entry_product js) ?entries))]
       else [])"
    by (rule registerFormSubmitHandler_issued [OF assms])
  have post: "(\<exists>req\<in>set (issued (net ?h)).
         req_method req = POST \<and> req_url req = API_URL @ ''/suppliers/register'')
       \<longleftrightarrow> ?all \<and> (\<exists>e\<in>set ?entries. row_filled js e)"
    unfolding iss using some by (auto simp: register_request_def)
  have body: "\<forall>req\<in>set (issued (net ?h)).
        \<exists>elements.
          req_body req = Some (JObject
            [(''company_name'', JString c), (''phone'', JString p),
             (''representative_name'', JString rn), (''products'', JArray elements)]) \<and>
          length elements = length (productsList s) \<and>
          (\<forall>i<length elements.
             \<exists>name_value price_value min_qty_value.
               product_name_input (productsList s ! i) = Some name_value \<and>
               product_price_input (productsList s ! i) = Some price_value \<and>
               product_min_qty_input (productsList s ! i) = Some min_qty_value \<and>
               elements ! i = JObject
                 [(''product_name'', JString (trim name_value)),
                  (''price_per_item'', JNumber (parseFloat js price_value)),
                  (''minimum_quantity'', JNumber (parseInt js min_qty_value))])"
  proof
    fix req assume "req \<in> set (issued (net ?h))"
    then have req: "req = register_request (register_payload c p rn (map (entry_product js) ?entries))"
      and all: ?all
      unfolding iss by (auto split: if_splits)
    let ?elements = "map new_product_json (map (entry_product js) ?entries)"
    have row: "\<exists>name_value price_value min_qty_value.
               product_name_input (?entries ! i) = Some name_value \<and>
               product_price_input (?entries ! i) = Some price_value \<and>
               product_min_qty_input (?entries ! i) = Some min_qty_value \<and>
               ?elements ! i = JObject
                 [(''product_name'', JString (trim name_value)),
                  (''price_per_item'', JNumber (parseFloat js price_value)),
                  (''minimum_quantity'', JNumber (parseInt js min_qty_value))]"
      if "i < length ?entries" for i
    proof -
      have "row_filled js (?entries ! i)" using all that by simp
      from entry_product_filled [OF this] show ?thesis
        using that by (auto simp: new_product_json_def)
    qed
    have sent: "req_body req = Some (JObject
            [(''company_name'', JString c), (''phone'', JString p),
             (''representative_name'', JString rn), (''products'', JArray ?elements)])"
      using req by (simp add: register_request_def register_payload_def)
    have "req_body req = Some (JObject
            [(''company_name'', JString c), (''phone'', JString p),
             (''representative_name'', JString rn), (''products'', JArray ?elements)]) \<and>
          length ?elements = length (productsList s) \<and>
          (\<forall>i<length ?elements.
             \<exists>name_value price_value min_qty_value.
               product_name_input (productsList s ! i) = Some name_value \<and>
               product_price_input (productsList s ! i) = Some price_value \<and>
               product_min_qty_input (productsList s ! i) = Some min_qty_value \<and>
               ?elements ! i = JObject
                 [(''product_name'', JString (trim name_value)),
                  (''price_per_item'', JNumber (parseFloat js price_value)),
                  (''minimum_quantity'', JNumber (parseInt js min_qty_value))])"
      using sent row by simp
    then show "\<exists>elements.
          req_body req = Some (JObject
            [(''company_name'', JString c), (''phone'', JString p),
             (''representative_name'', JString rn), (''products'', JArray elements)]) \<and>
          length elements = length (productsList s) \<and>
          (\<forall>i<length elements.
             \<exists>name_value price_value min_qty_value.
               product_name_input (productsList s ! i) = Some name_value \<and>
               product_price_input (productsList s ! i) = Some price_value \<and>
               product_min_qty_input (productsList s ! i) = Some min_qty_value \<and>
               elements ! i = JObject
                 [(''product_name'', JString (trim name_value)),
                  (''price_per_item'', JNumber (parseFloat js price_value)),
                  (''minimum_quantity'', JNumber (parseInt js min_qty_value))])"
      by (rule exI [of _ ?elements])
  qed
  have invalid1: "\<not> ?all \<longrightarrow>
        net ?h = [] \<and>
        alerts ?h = alerts s @
          [''Please ensure all product fields (Name, Price >= 0, Min Qty >= 1) are correctly filled.'']"
    using registerFormSubmitHandler_invalid [OF assms, of js c p rn r] by blast
  have invalid2: "?all \<and> \<not> (\<exists>e\<in>set ?entries. row_filled js e) \<longrightarrow>
        net ?h = [] \<and> alerts ?h = alerts s @ [''Please add at least one valid product.'']"
    using registerFormSubmitHandler_invalid [OF assms, of js c p rn r] some by blast
  show ?thesis
    by (intro conjI post invalid1 invalid2 body)
qed

lemma example_entry_filled: "row_filled example_js example_entry"
  by (simp add: row_filled_def example_entry_def example_js_def parse_digits_def num_ge_def
      trim_def is_space_def)

text \<open>The theorem at a form with one row: name \<^verbatim>\<open>bolt\<close>, price 5, minimum quantity 12.\<close>

theorem registration_posts_iff_all_rows_valid_witness:
  "net example_register_page = [] \<and>
   (\<exists>req\<in>set (issued (net (registerFormSubmitHandler example_js ''Acme'' ''050'' ''Dan''
        (NetworkError []) example_register_page))).
      req_method req = POST \<and> req_url req = API_URL @ ''/suppliers/register'')"
proof -
  have n: "net example_register_page = []"
    by (simp add: example_register_page_def supplier_init_def)
  have rows: "(\<forall>e\<in>set (productsList example_register_page). row_filled example_js e) \<and>
      (\<exists>e\<in>set (productsList example_register_page). row_filled example_js e)"
    using example_entry_filled by (simp add: example_register_page_def supplier_init_def)
  show ?thesis
    using registration_posts_iff_all_rows_valid [OF n, of example_js "''Acme''" "''050''" "''Dan''"
        "NetworkError []"] rows n
    by blast
qed

lemma loadOrders_net [simp]:
  "net (loadOrders js c r s) =
     net s @ [Issued (supplier_orders_request js c), Settled (supplier_orders_request js c)]"
  by (simp add: loadOrders_def loadOrders_resume_def loadOrders_start_def loadOrders_catch_def
      io_defs Let_def split: fetch_result.splits sum.splits option.splits)

lemma loadOrders_alerts [simp]: "alerts (loadOrders js c r s) = alerts s"
  by (simp add: loadOrders_def loadOrders_resume_def loadOrders_start_def loadOrders_catch_def
      io_defs Let_def split: fetch_result.splits sum.splits option.splits)


lemma login_response_net:
  "net (login_response js c r r2 s) =
     net s @ (if failed r then []
              else [Issued (supplier_orders_request js c), Settled (supplier_orders_request js c)])"
  by (simp add: login_response_def login_catch_def showOrdersView_def failed_def io_defs
      split: fetch_result.splits sum.splits)


lemma approveOrder_response_net:
  "net (approveOrder_response js r r2 s) =
     net s @ (if failed r \<or> loggedInSupplierName s = [] then []
              else [Issued (supplier_orders_request js (loggedInSupplierName s)),
                    Settled (supplier_orders_request js (loggedInSupplierName s))])"
  by (simp add: approveOrder_response_def approveOrder_catch_def failed_def io_defs Let_def
      split: fetch_result.splits sum.splits)


lemma markOrderComplete_net:
  "net (markOrderComplete confirmed i r r2 s) =
     net s @
     (if \<not> confirmed then []
      else [Issued (complete_request i), Settled (complete_request i)] @
           (if failed r then [] else [Issued orders_request, Settled orders_request]))"
  by (simp add: markOrderComplete_def Let_def markOrderComplete_response_net io_defs)

lemma registerFormSubmitHandler_net:
  "net (registerFormSubmitHandler js c p rn r s) =
     net s @
     (let req = register_request (register_payload c p rn (map (entry_product js) (productsList s)))
      in if (\<forall>e\<in>set (productsList s). row_filled js e) \<and> productsList s \<noteq> []
         then [Issued req, Settled req] else [])"
  by (simp add: registerFormSubmitHandler_eq Let_def register_response_net io_defs)

lemma loginFormSubmitHandler_net:
  "net (loginFormSubmitHandler js c p r r2 s) =
     net s @
     (let req = login_request (login_payload (trim c) (trim p))
      in if trim c = [] \<or> trim p = [] then []
         else [Issued req, Settled req] @
              (if failed r then []
               else [Issued (supplier_orders_request js (trim c)),
                     Settled (supplier_orders_request js (trim c))]))"
  by (simp add: loginFormSubmitHandler_def Let_def login_response_net io_defs)

lemma approveOrder_net:
  "net (approveOrder js confirmed i r r2 s) =
     net s @
     (if \<not> confirmed then []
      else [Issued (approve_request i), Settled (approve_request i)] @
           (if failed r \<or> loggedInSupplierName s = [] then []
            else [Issued (supplier_orders_request js (loggedInSupplierName s)),
                  Settled (supplier_orders_request js (loggedInSupplierName s))]))"
  by (simp add: approveOrder_def Let_def approveOrder_response_net io_defs)

lemma displayProductsForOrder_net: "net (displayProductsForOrder js n s) = net s"
  by (simp add: displayProductsForOrder_def Let_def io_defs
      split: option.splits suppliers_value.splits)

lemma onDOMContentLoaded_net:
  "net (onDOMContentLoaded suppliers_first r1 r2 s) =
     net s @ [Issued suppliers_request, Issued orders_request] @
     (if suppliers_first then [Settled suppliers_request, Settled orders_request]
      else [Settled orders_request, Settled suppliers_request])"
  by (simp add: onDOMContentLoaded_def Let_def
      fetchSuppliers_resume_def fetchSuppliers_start_def fetchSuppliers_catch_def
      loadAllOrders_resume_def loadAllOrders_start_def loadAllOrders_catch_def
      add_supplier_option_frame io_defs
      split: fetch_result.splits sum.splits option.splits suppliers_value.splits)

lemma example_order_page_submit:
  "net (submitNewOrder example_js ''Acme'' (NetworkError []) (NetworkError []) example_order_page) =
     [Issued (create_order_request (orderPayload ''Acme''
        [\<lparr>line_product_name = ''bolt'', line_quantity = Fin 3, line_price_per_item = Fin 5\<rparr>])),
      Settled (create_order_request (orderPayload ''Acme''
        [\<lparr>line_product_name = ''bolt'', line_quantity = Fin 3, line_price_per_item = Fin 5\<rparr>]))]"
  by (simp add: submitNewOrder_def submitNewOrder_response_def submitNewOrder_catch_def
      example_order_page_def owner_init_def panel_elements_def checkedProducts_def
      quantityInput_def plain_text_def plain_char_def example_js_def parse_digits_def num_gt_def
      io_defs Let_def)

lemma max_in_flight_sequential [simp]:
  "max_in_flight [] = 0"
  "max_in_flight [Issued a, Settled a'] = 1"
  "max_in_flight [Issued a, Settled a', Issued b, Settled b'] = 1"
  by (simp_all add: max_in_flight_def)

text \<open>
  Claim C8, as stated, fails for the page-load handler: it calls \<open>fetchSuppliers\<close> and
  \<open>loadAllOrders\<close> without awaiting either, so both requests are out before any response
  is handled.
\<close>

theorem page_load_two_requests_in_flight_counterexample:
  "\<not> max_in_flight (net (onDOMContentLoaded True (NetworkError []) (NetworkError []) owner_init)) \<le> 1"
  by (simp add: onDOMContentLoaded_net owner_init_def max_in_flight_def)

text \<open>
  Claim C8 (amended): every event handler other than the page-load handler has at most one
  request in flight at any time (a second request is sent only after the first has
  settled); the page-load handler has two, \<^verbatim>\<open>GET /suppliers\<close> and \<^verbatim>\<open>GET /orders/\<close>, in
  flight together.
\<close>

theorem one_request_in_flight_except_page_load:
  assumes "net s = []" and "net t = []"
  shows "max_in_flight (net (displayProductsForOrder js n s)) \<le> 1 \<and>
         max_in_flight (net (submitNewOrder js n r r2 s)) \<le> 1 \<and>
         max_in_flight (net (loadAllOrders r2 s)) \<le> 1 \<and>
         max_in_flight (net (markOrderComplete confirmed i r r2 s)) \<le> 1 \<and>
         max_in_flight (net (fetchSuppliers r1 s)) \<le> 1 \<and>
         max_in_flight (net (addProductEntry t)) \<le> 1 \<and>
         max_in_flight (net (removeProductEntry k t)) \<le> 1 \<and>
         max_in_flight (net (registerFormSubmitHandler js c p rn r t)) \<le> 1 \<and>
         max_in_flight (net (loginFormSubmitHandler js c p r r2 t)) \<le> 1 \<and>
         max_in_flight (net (approveOrder js confirmed i r r2 t)) \<le> 1 \<and>
         max_in_flight (net (loadOrders js c r2 t)) \<le> 1 \<and>
         max_in_flight (net (onDOMContentLoaded suppliers_first r1 r2 s)) = 2"
proof -
  have "max_in_flight (net (displayProductsForOrder js n s)) \<le> 1"
    using assms(1) by (simp add: displayProductsForOrder_net)
  moreover have "max_in_flight (net (submitNewOrder js n r r2 s)) \<le> 1"
    using assms(1) submitNewOrder_net [of js n r r2 s] by auto
  moreover have "max_in_flight (net (loadAllOrders r2 s)) \<le> 1"
    using assms(1) by simp
  moreover have "max_in_flight (net (markOrderComplete confirmed i r r2 s)) \<le> 1"
    using assms(1) by (simp add: markOrderComplete_net)
  moreover have "max_in_flight (net (fetchSuppliers r1 s)) \<le> 1"
    using assms(1) by simp
  moreover have "max_in_flight (net (addProductEntry t)) \<le> 1"
    using assms(2) by (simp add: addProductEntry_def)
  moreover have "max_in_flight (net (removeProductEntry k t)) \<le> 1"
    using assms(2) by (simp add: removeProductEntry_def)
  moreover have "max_in_flight (net (registerFormSubmitHandler js c p rn r t)) \<le> 1"
    using assms(2) by (simp add: registerFormSubmitHandler_net Let_def)
  moreover have "max_in_flight (net (loginFormSubmitHandler js c p r r2 t)) \<le> 1"
    using assms(2) by (simp add: loginFormSubmitHandler_net Let_def)
  moreover have "max_in_flight (net (approveOrder js confirmed i r r2 t)) \<le> 1"
    using assms(2) by (simp add: approveOrder_net)
  moreover have "max_in_flight (net (loadOrders js c r2 t)) \<le> 1"
    using assms(2) by simp
  moreover have "max_in_flight (net (onDOMContentLoaded suppliers_first r1 r2 s)) = 2"
    using assms(1) by (simp add: onDOMContentLoaded_net max_in_flight_def)
  ultimately show ?thesis by blast
qed

text \<open>The theorem at the initial pages, with every request failing on the network.\<close>

theorem one_request_in_flight_except_page_load_witness:
  "net owner_init = [] \<and> net supplier_init = [] \<and>
   max_in_flight (net (markOrderComplete True ''7'' (NetworkError []) (NetworkError []) owner_init)) \<le> 1 \<and>
   max_in_flight (net (approveOrder example_js True ''7'' (NetworkError []) (NetworkError [])
     supplier_init)) \<le> 1 \<and>
   max_in_flight (net (onDOMContentLoaded False (NetworkError []) (NetworkError []) owner_init)) = 2"
proof -
  have o: "net owner_init = []" by (simp add: owner_init_def)
  have t: "net supplier_init = []" by (simp add: supplier_init_def)
  show ?thesis
    using one_request_in_flight_except_page_load [OF o t, of example_js "[]" "NetworkError []"
        "NetworkError []" True "''7''" "NetworkError []" 0 "[]" "[]" "[]" False] o t
    by simp
qed





text \<open>
  Claim C1 fails on the code: the ternaries of the two templates write a button exactly
  for the status \<^verbatim>\<open>Pending\<close> (supplier page) and \<^verbatim>\<open>In Process\<close> (owner page), but the
  templates go to \<^verbatim>\<open>innerHTML\<close> with the order's fields unescaped, so a field can bring a
  button of its own. Here a \<^verbatim>\<open>Completed\<close> order has an item named with the markup of an
  Approve button: the actions block is written empty, and the Products paragraph of the
  same item is written with the button's markup in it.
\<close>

theorem loadOrders_writes_button_markup_for_completed_order:
  "status injected_order = ''Completed'' \<and>
   ordersList (loadOrders example_js ''Acme'' injected_orders supplier_init) =
     Elements [order_li_of injected_order] \<and>
   li_status (order_li_of injected_order) = ''Completed'' \<and>
   li_action (order_li_of injected_order) = None \<and>
   li_products_html example_js (order_li_of injected_order) =
     ''<button onclick=approveOrder(1)>Approve Order</button> (Qty: 1, Price/Unit: 5.00)''"
  by (simp add: injected_order_def injected_orders_def order_li_of_def li_products_html_def
      loadOrders_def loadOrders_resume_def loadOrders_start_def supplier_init_def response_ok_def
      example_js_def show_whole_examples io_defs Let_def)

text \<open>
  The same on the owner page, for the details cell of the row of an order that is not
  \<^verbatim>\<open>In Process\<close>.
\<close>

lemma loadAllOrders_writes_button_markup_for_completed_order:
  "allOrdersList (loadAllOrders injected_orders owner_init) = Elements [owner_row injected_order] \<and>
   row_action (owner_row injected_order) = None \<and>
   row_details_html example_js (owner_row injected_order) =
     ''<button onclick=approveOrder(1)>Approve Order</button> (x1)''"
  by (simp add: injected_order_def injected_orders_def owner_row_def row_details_html_def
      loadAllOrders_def loadAllOrders_resume_def loadAllOrders_start_def owner_init_def
      response_ok_def example_js_def show_whole_examples io_defs Let_def)

text \<open>
  Apart from what the fields bring, the button written for an order is the one of its
  status: on the supplier page the Approve button, whose click calls \<open>approveOrder\<close> with
  the order's id, exactly when the status is \<^verbatim>\<open>Pending\<close>; on the owner page the Confirm
  Receipt (Complete) button, with \<open>markOrderComplete\<close>, exactly when it is \<^verbatim>\<open>In Process\<close>.
\<close>

lemma template_button_iff_status:
  "(li_action (order_li_of ordr) \<noteq> None \<longleftrightarrow> status ordr = ''Pending'') \<and>
   (status ordr = ''Pending'' \<longrightarrow>
      li_action (order_li_of ordr) =
        Some (Button ''Approve Order'' (ApproveOrder (order_reference_id ordr)))) \<and>
   (row_action (owner_row ordr) \<noteq> None \<longleftrightarrow> status ordr = ''In Process'') \<and>
   (status ordr = ''In Process'' \<longrightarrow>
      row_action (owner_row ordr) =
        Some (Button ''Confirm Receipt (Complete)'' (MarkOrderComplete (order_reference_id ordr))))"
  by (simp add: order_li_of_def owner_row_def)

lemma orderPayload_keys:
  "set (all_keys (orderPayload n lines)) \<subseteq>
     {''supplier_name'', ''items'', ''product_name'', ''quantity'', ''price_per_item''}"
  by (auto simp: orderPayload_def line_json_def)

lemma register_payload_keys:
  "set (all_keys (register_payload c p rn products)) \<subseteq>
     {''company_name'', ''phone'', ''representative_name'', ''products'',
      ''product_name'', ''price_per_item'', ''minimum_quantity''}"
  by (auto simp: register_payload_def new_product_json_def)

lemma lifecycle_free_requests [simp]:
  "lifecycle_free suppliers_request"
  "lifecycle_free orders_request"
  "lifecycle_free (complete_request i)"
  "lifecycle_free (approve_request i)"
  "lifecycle_free (supplier_orders_request js c)"
  "lifecycle_free (login_request (login_payload c p))"
  by (simp_all add: lifecycle_free_def request_keys_def suppliers_request_def orders_request_def
      complete_request_def approve_request_def supplier_orders_request_def login_request_def
      login_payload_def)

lemma lifecycle_free_create_order [simp]:
  "lifecycle_free (create_order_request (orderPayload n lines))"
  using orderPayload_keys [of n lines]
  by (auto simp: lifecycle_free_def request_keys_def create_order_request_def)

lemma lifecycle_free_register [simp]:
  "lifecycle_free (register_request (register_payload c p rn products))"
  using register_payload_keys [of c p rn products]
  by (auto simp: lifecycle_free_def request_keys_def register_request_def)

text \<open>
  Claim C4: the payload \<open>submitNewOrder\<close> sends has exactly the fields \<^verbatim>\<open>supplier_name\<close>
  and \<^verbatim>\<open>items\<close>, each item exactly \<^verbatim>\<open>product_name\<close>, \<^verbatim>\<open>quantity\<close> and
  \<^verbatim>\<open>price_per_item\<close>; no request of either page carries a \<^verbatim>\<open>status\<close> or a
  \<^verbatim>\<open>total_amount\<close>; and what the pages show as an order's status and total is the status
  and the \<^verbatim>\<open>total_amount\<close> the backend sent, never a value computed from the items.
\<close>

theorem order_lifecycle_left_to_backend:
  assumes "net s = []" and "net t = []"
  shows
    "object_keys (orderPayload n lines) = [''supplier_name'', ''items''] \<and>
     (\<exists>elements.
        orderPayload n lines =
          JObject [(''supplier_name'', JString n), (''items'', JArray elements)] \<and>
        length elements = length lines \<and>
        (\<forall>j\<in>set elements. object_keys j = [''product_name'', ''quantity'', ''price_per_item''])) \<and>
     ''status'' \<notin> set (all_keys (orderPayload n lines)) \<and>
     ''total_amount'' \<notin> set (all_keys (orderPayload n lines)) \<and>
     (\<forall>req\<in>set (issued (net (submitNewOrder js n r r2 s))).
        req_method req = POST \<longrightarrow> (\<exists>sent. req_body req = Some (orderPayload n sent))) \<and>
     (\<forall>req\<in>set (issued (net (submitNewOrder js n r r2 s))). lifecycle_free req) \<and>
     (\<forall>req\<in>set (issued (net (markOrderComplete confirmed i r r2 s))). lifecycle_free req) \<and>
     (\<forall>req\<in>set (issued (net (loadAllOrders r2 s))). lifecycle_free req) \<and>
     (\<forall>req\<in>set (issued (net (fetchSuppliers r1 s))). lifecycle_free req) \<and>
     (\<forall>req\<in>set (issued (net (onDOMContentLoaded suppliers_first r1 r2 s))). lifecycle_free req) \<and>
     (\<forall>req\<in>set (issued (net (registerFormSubmitHandler js c p rn r t))). lifecycle_free req) \<and>
     (\<forall>req\<in>set (issued (net (loginFormSubmitHandler js c p r r2 t))). lifecycle_free req) \<and>
     (\<forall>req\<in>set (issued (net (approveOrder js confirmed i r r2 t))). lifecycle_free req) \<and>
     (\<forall>req\<in>set (issued (net (loadOrders js c r2 t))). lifecycle_free req) \<and>
     row_status (owner_row ordr) = status ordr \<and>
     row_total (owner_row ordr) = total_amount_cell (total_amount ordr) ''N/A'' \<and>
     li_status (order_li_of ordr) = status ordr \<and>
     li_total (order_li_of ordr) = total_amount_cell (total_amount ordr) ''Not calculated''"
proof -
  have keys: "object_keys (orderPayload n lines) = [''supplier_name'', ''items'']"
    by (simp add: object_keys_def orderPayload_def)
  have shape: "\<exists>elements.
        orderPayload n lines =
          JObject [(''supplier_name'', JString n), (''items'', JArray elements)] \<and>
        length elements = length lines \<and>
        (\<forall>j\<in>set elements. object_keys j = [''product_name'', ''quantity'', ''price_per_item''])"
    by (intro exI [of _ "map line_json lines"])
       (auto simp: orderPayload_def line_json_def object_keys_def)
  have none: "''status'' \<notin> set (all_keys (orderPayload n lines)) \<and>
     ''total_amount'' \<notin> set (all_keys (orderPayload n lines))"
    using orderPayload_keys [of n lines] by auto
  have post: "\<forall>req\<in>set (issued (net (submitNewOrder js n r r2 s))).
        req_method req = POST \<longrightarrow> (\<exists>sent. req_body req = Some (orderPayload n sent))"
  proof (intro ballI impI)
    fix req
    assume req: "req \<in> set (issued (net (submitNewOrder js n r r2 s)))" and m: "req_method req = POST"
    from submitNewOrder_net [of js n r r2 s]
    show "\<exists>sent. req_body req = Some (orderPayload n sent)"
    proof
      assume "net (submitNewOrder js n r r2 s) = net s"
      then show ?thesis using req assms(1) by simp
    next
      assume "\<exists>lines. lines \<noteq> [] \<and> (\<forall>l\<in>set lines. num_gt (line_quantity l) 0) \<and>
        net (submitNewOrder js n r r2 s) =
          net s @ [Issued (create_order_request (orderPayload n lines)),
                   Settled (create_order_request (orderPayload n lines))] @
          (if failed r then [] else [Issued orders_request, Settled orders_request])"
      then obtain lines where "net (submitNewOrder js n r r2 s) =
          net s @ [Issued (create_order_request (orderPayload n lines)),
                   Settled (create_order_request (orderPayload n lines))] @
          (if failed r then [] else [Issued orders_request, Settled orders_request])"
        by blast
      then have "req = create_order_request (orderPayload n lines)"
        using req m assms(1) by (auto simp: orders_request_def split: if_splits)
      then show ?thesis
        by (intro exI [of _ lines]) (simp add: create_order_request_def)
    qed
  qed
  have submit: "\<forall>req\<in>set (issued (net (submitNewOrder js n r r2 s))). lifecycle_free req"
    using assms(1) submitNewOrder_net [of js n r r2 s] by (auto split: if_splits)
  have complete: "\<forall>req\<in>set (issued (net (markOrderComplete confirmed i r r2 s))). lifecycle_free req"
    using assms(1) by (auto simp: markOrderComplete_net split: if_splits)
  have load_all: "\<forall>req\<in>set (issued (net (loadAllOrders r2 s))). lifecycle_free req"
    using assms(1) by simp
  have suppliers: "\<forall>req\<in>set (issued (net (fetchSuppliers r1 s))). lifecycle_free req"
    using assms(1) by simp
  have page_load: "\<forall>req\<in>set (issued (net (onDOMContentLoaded suppliers_first r1 r2 s))). lifecycle_free req"
    using assms(1) by (simp add: onDOMContentLoaded_net)
  have register: "\<forall>req\<in>set (issued (net (registerFormSubmitHandler js c p rn r t))). lifecycle_free req"
    using assms(2) by (simp add: registerFormSubmitHandler_net Let_def)
  have login: "\<forall>req\<in>set (issued (net (loginFormSubmitHandler js c p r r2 t))). lifecycle_free req"
    using assms(2) by (simp add: loginFormSubmitHandler_net Let_def)
  have approve: "\<forall>req\<in>set (issued (net (approveOrder js confirmed i r r2 t))). lifecycle_free req"
    using assms(2) by (simp add: approveOrder_net)
  have load: "\<forall>req\<in>set (issued (net (loadOrders js c r2 t))). lifecycle_free req"
    using assms(2) by simp
  have shown: "row_status (owner_row ordr) = status ordr \<and>
     row_total (owner_row ordr) = total_amount_cell (total_amount ordr) ''N/A'' \<and>
     li_status (order_li_of ordr) = status ordr \<and>
     li_total (order_li_of ordr) = total_amount_cell (total_amount ordr) ''Not calculated''"
    by (simp add: owner_row_def order_li_of_def)
  show ?thesis
    using keys shape none post submit complete load_all suppliers page_load register login
      approve load shown
    by blast
qed

text \<open>
  The theorem at the page with one checked product row (quantity 3): the body of the POST
  is the payload with the two fields.
\<close>

theorem order_lifecycle_left_to_backend_witness:
  "net example_order_page = [] \<and> net supplier_init = [] \<and>
   (\<exists>req\<in>set (issued (net (submitNewOrder example_js ''Acme'' (NetworkError []) (NetworkError [])
        example_order_page))).
      req_method req = POST \<and>
      (\<exists>sent. req_body req = Some (orderPayload ''Acme'' sent) \<and>
         object_keys (orderPayload ''Acme'' sent) = [''supplier_name'', ''items'']) \<and>
      lifecycle_free req)"
proof -
  have o: "net example_order_page = []"
    by (simp add: example_order_page_def owner_init_def)
  have t: "net supplier_init = []"
    by (simp add: supplier_init_def)
  let ?req = "create_order_request (orderPayload ''Acme''
      [\<lparr>line_product_name = ''bolt'', line_quantity = Fin 3, line_price_per_item = Fin 5\<rparr>])"
  have mem: "?req \<in> set (issued (net (submitNewOrder example_js ''Acme'' (NetworkError [])
      (NetworkError []) example_order_page)))"
    by (simp add: example_order_page_submit)
  have m: "req_method ?req = POST"
    by (simp add: create_order_request_def)
  note th = order_lifecycle_left_to_backend [OF o t, of "''Acme''" _ example_js "NetworkError []"
      "NetworkError []"]
  have keys: "\<And>sent. object_keys (orderPayload ''Acme'' sent) = [''supplier_name'', ''items'']"
    using th by blast
  have "\<exists>sent. req_body ?req = Some (orderPayload ''Acme'' sent)"
    using th mem m by blast
  moreover have "lifecycle_free ?req"
    using th mem by blast
  ultimately show ?thesis
    using o t mem m keys by blast
qed

section \<open>Properties of the SQL script\<close>

lemmas sql_defs = sql_eq_def sql_not_def sql_or_def sql_and_def sql_true_def
lemmas ex1_defs = ex1_select_def father_rows_def mother_rows_def sibling_rows_def sibling_on_def
  father_child_rows_def mother_child_rows_def spouse_rows_def child_label_def

lemma sql_true_eq_Some [simp]: "sql_true (sql_eq a (Some y)) \<longleftrightarrow> a = Some y"
  by (auto simp: sql_defs split: option.splits)

lemma father_rows_iff:
  "(a, b, t) \<in> set (father_rows people) \<longleftrightarrow>
     (\<exists>p\<in>set people. Person_Id p = a \<and> Father_Id p = Some b \<and> t = ''father'')"
  by (force simp: father_rows_def split: option.splits)

lemma mother_rows_iff:
  "(a, b, t) \<in> set (mother_rows people) \<longleftrightarrow>
     (\<exists>p\<in>set people. Person_Id p = a \<and> Mother_Id p = Some b \<and> t = ''mother'')"
  by (force simp: mother_rows_def split: option.splits)

lemma father_child_rows_iff:
  "(a, b, t) \<in> set (father_child_rows people) \<longleftrightarrow>
     (\<exists>p\<in>set people. Father_Id p = Some a \<and> Person_Id p = b \<and> t = child_label p)"
  by (force simp: father_child_rows_def split: option.splits)

lemma mother_child_rows_iff:
  "(a, b, t) \<in> set (mother_child_rows people) \<longleftrightarrow>
     (\<exists>p\<in>set people. Mother_Id p = Some a \<and> Person_Id p = b \<and> t = child_label p)"
  by (force simp: mother_child_rows_def split: option.splits)

lemma spouse_rows_iff:
  "(a, b, t) \<in> set (spouse_rows people) \<longleftrightarrow>
     (\<exists>p\<in>set people. Person_Id p = a \<and> Spouse_Id p = Some b \<and>
        t = (if Gender p = Some ''M'' then ''wife'' else ''husband''))"
  by (force simp: spouse_rows_def split: option.splits)

lemma sibling_on_iff:
  "sql_true (sibling_on p1 p2) \<longleftrightarrow>
     ((\<exists>f. Father_Id p1 = Some f \<and> Father_Id p2 = Some f) \<or>
      (\<exists>m. Mother_Id p1 = Some m \<and> Mother_Id p2 = Some m)) \<and> Person_Id p1 \<noteq> Person_Id p2"
  by (auto simp: sibling_on_def sql_defs split: option.splits)

lemma sibling_rows_iff:
  "(a, b, t) \<in> set (sibling_rows people) \<longleftrightarrow>
     (\<exists>p1\<in>set people. \<exists>p2\<in>set people. Person_Id p1 = a \<and> Person_Id p2 = b \<and>
        sql_true (sibling_on p1 p2) \<and> Father_Id p1 \<noteq> None \<and> Mother_Id p1 \<noteq> None \<and>
        t = (if Gender p1 = Some ''M'' then ''brother'' else ''sister''))"
  by (force simp: sibling_rows_def)

lemma child_label_cases: "child_label p = (if Gender p = Some ''M'' then ''son'' else ''daughter'')"
  by (simp add: child_label_def)

lemma ex1_insert_Inr:
  "ex1_insert family_tree people = Inr rows \<Longrightarrow> rows = family_tree @ ex1_select people"
  by (simp add: ex1_insert_def Let_def split: if_splits)

lemma sample_people_insert:
  "ex1_insert [] sample_people = Inr
    [(333, 111, ''father''), (444, 111, ''father''), (333, 222, ''mother''), (444, 222, ''mother''),
     (333, 444, ''brother''), (444, 333, ''sister''), (111, 333, ''son''), (111, 444, ''daughter''),
     (222, 333, ''son''), (222, 444, ''daughter''), (111, 222, ''wife'')]"
  by (simp add: ex1_insert_def ex1_defs sql_defs sample_people_def mk_person_def row_key_def)

text \<open>
  Claim C6, as stated, fails on a table whose INSERT violates the primary key of
  \<^verbatim>\<open>Family_Tree\<close>: for the two siblings who are also spouses, the sibling row and the
  spouse row share \<^verbatim>\<open>(Person_Id, Relative_Id)\<close>, the statement fails, and the person with
  \<^verbatim>\<open>Father_Id = 10\<close> has no \<^verbatim>\<open>'father'\<close> row.
\<close>

theorem ex1_insert_duplicate_key_counterexample:
  "mk_person 1 ''Cleopatra'' ''Ptolemy'' ''F'' (Some 10) (Some 11) (Some 2) \<in> set sibling_spouses \<and>
   ex1_insert [] sibling_spouses = Inl Duplicate_Key \<and>
   (1, 10, ''father'') \<notin> set (family_tree_after [] sibling_spouses)"
  by (simp add: family_tree_after_def ex1_insert_def ex1_defs sql_defs sibling_spouses_def
      mk_person_def row_key_def)

lemma person_by_id:
  "distinct (map Person_Id people) \<Longrightarrow> p \<in> set people \<Longrightarrow> q \<in> set people \<Longrightarrow>
   Person_Id p = Person_Id q \<Longrightarrow> p = q"
  by (meson distinct_map inj_onD)

lemma ex1_select_mem:
  "r \<in> set (ex1_select people) \<longleftrightarrow>
     r \<in> set (father_rows people) \<or> r \<in> set (mother_rows people) \<or> r \<in> set (sibling_rows people) \<or>
     r \<in> set (father_child_rows people) \<or> r \<in> set (mother_child_rows people) \<or>
     r \<in> set (spouse_rows people)"
  by (simp add: ex1_select_def)

text \<open>
  Claim C6 (amended): whenever the Ex1 INSERT succeeds, the table holds, for every row of
  \<^verbatim>\<open>People\<close> with a non-null \<^verbatim>\<open>Father_Id\<close>, the rows \<^verbatim>\<open>(Person_Id, Father_Id, 'father')\<close>
  and \<^verbatim>\<open>(Father_Id, Person_Id, t)\<close> with \<open>t\<close> \<^verbatim>\<open>'son'\<close> if the child's gender is
  \<^verbatim>\<open>'M'\<close> and \<^verbatim>\<open>'daughter'\<close> otherwise; the same for \<^verbatim>\<open>Mother_Id\<close> with
  \<^verbatim>\<open>'mother'\<close>; and for a non-null \<^verbatim>\<open>Spouse_Id\<close> the row \<^verbatim>\<open>(Person_Id, Spouse_Id, t)\<close>
  with \<open>t\<close> \<^verbatim>\<open>'wife'\<close> if the person's gender is \<^verbatim>\<open>'M'\<close> and \<^verbatim>\<open>'husband'\<close>
  otherwise.
\<close>

theorem ex1_insert_parent_and_spouse_rows:
  assumes "ex1_insert family_tree people = Inr family_tree'"
    and "p \<in> set people"
  shows "(\<forall>f. Father_Id p = Some f \<longrightarrow>
            (Person_Id p, f, ''father'') \<in> set family_tree' \<and>
            (f, Person_Id p, if Gender p = Some ''M'' then ''son'' else ''daughter'') \<in> set family_tree')
       \<and> (\<forall>m. Mother_Id p = Some m \<longrightarrow>
            (Person_Id p, m, ''mother'') \<in> set family_tree' \<and>
            (m, Person_Id p, if Gender p = Some ''M'' then ''son'' else ''daughter'') \<in> set family_tree')
       \<and> (\<forall>s. Spouse_Id p = Some s \<longrightarrow>
            (Person_Id p, s, if Gender p = Some ''M'' then ''wife'' else ''husband'') \<in> set family_tree')"
proof -
  have rows: "r \<in> set (ex1_select people) \<Longrightarrow> r \<in> set family_tree'" for r
    using ex1_insert_Inr [OF assms(1)] by simp
  have father: "(Person_Id p, f, ''father'') \<in> set (ex1_select people)" if "Father_Id p = Some f" for f
    unfolding ex1_select_mem father_rows_iff using that assms(2) by blast
  have fchild: "(f, Person_Id p, child_label p) \<in> set (ex1_select people)" if "Father_Id p = Some f" for f
    unfolding ex1_select_mem father_child_rows_iff using that assms(2) by blast
  have mother: "(Person_Id p, m, ''mother'') \<in> set (ex1_select people)" if "Mother_Id p = Some m" for m
    unfolding ex1_select_mem mother_rows_iff using that assms(2) by blast
  have mchild: "(m, Person_Id p, child_label p) \<in> set (ex1_select people)" if "Mother_Id p = Some m" for m
    unfolding ex1_select_mem mother_child_rows_iff using that assms(2) by blast
  have spouse: "(Person_Id p, s, if Gender p = Some ''M'' then ''wife'' else ''husband'')
      \<in> set (ex1_select people)" if "Spouse_Id p = Some s" for s
    unfolding ex1_select_mem spouse_rows_iff using that assms(2) by blast
  show ?thesis
  proof (intro conjI allI impI)
    fix f assume "Father_Id p = Some f"
    then show "(Person_Id p, f, ''father'') \<in> set family_tree'"
      and "(f, Person_Id p, if Gender p = Some ''M'' then ''son'' else ''daughter'') \<in> set family_tree'"
      using rows [OF father] rows [OF fchild] by (simp_all add: child_label_cases)
  next
    fix m assume "Mother_Id p = Some m"
    then show "(Person_Id p, m, ''mother'') \<in> set family_tree'"
      and "(m, Person_Id p, if Gender p = Some ''M'' then ''son'' else ''daughter'') \<in> set family_tree'"
      using rows [OF mother] rows [OF mchild] by (simp_all add: child_label_cases)
  next
    fix s assume "Spouse_Id p = Some s"
    then show "(Person_Id p, s, if Gender p = Some ''M'' then ''wife'' else ''husband'') \<in> set family_tree'"
      using rows [OF spouse] by simp
  qed
qed

text \<open>The theorem at the script's sample data: Michael (333) and David (111).\<close>

theorem ex1_insert_parent_and_spouse_rows_witness:
  "(333, 111, ''father'') \<in> set (family_tree_after [] sample_people) \<and>
   (111, 333, ''son'') \<in> set (family_tree_after [] sample_people) \<and>
   (333, 222, ''mother'') \<in> set (family_tree_after [] sample_people) \<and>
   (222, 333, ''son'') \<in> set (family_tree_after [] sample_people) \<and>
   (111, 222, ''wife'') \<in> set (family_tree_after [] sample_people)"
proof -
  let ?michael = "mk_person 333 ''Michael'' ''Cohen'' ''M'' (Some 111) (Some 222) None"
  let ?david = "mk_person 111 ''David'' ''Cohen'' ''M'' None None (Some 222)"
  have after: "ex1_insert [] sample_people = Inr (family_tree_after [] sample_people)"
    by (simp add: family_tree_after_def sample_people_insert)
  have m: "?michael \<in> set sample_people" and d: "?david \<in> set sample_people"
    by (simp_all add: sample_people_def)
  have f: "Father_Id ?michael = Some 111" and mo: "Mother_Id ?michael = Some 222"
    and s: "Spouse_Id ?david = Some 222"
    by (simp_all add: mk_person_def)
  note mich = ex1_insert_parent_and_spouse_rows [OF after m]
  note dav = ex1_insert_parent_and_spouse_rows [OF after d]
  from mich f have "(Person_Id ?michael, 111, ''father'') \<in> set (family_tree_after [] sample_people)"
      "(111, Person_Id ?michael, if Gender ?michael = Some ''M'' then ''son'' else ''daughter'')
         \<in> set (family_tree_after [] sample_people)"
    by blast+
  moreover from mich mo have "(Person_Id ?michael, 222, ''mother'') \<in> set (family_tree_after [] sample_people)"
      "(222, Person_Id ?michael, if Gender ?michael = Some ''M'' then ''son'' else ''daughter'')
         \<in> set (family_tree_after [] sample_people)"
    by blast+
  moreover from dav s have "(Person_Id ?david, 222, if Gender ?david = Some ''M'' then ''wife'' else ''husband'')
         \<in> set (family_tree_after [] sample_people)"
    by blast
  ultimately show ?thesis
    by (simp add: mk_person_def)
qed

lemma update_rows_single:
  assumes "\<forall>p\<in>set ps. ex2_where snapshot p \<longrightarrow> (\<exists>x. spouse_subquery snapshot p = [x])"
  shows "update_rows snapshot ps = Inr (map (ex2_set snapshot) ps)"
  using assms
proof (induction ps)
  case Nil
  then show ?case by simp
next
  case (Cons p ps)
  then have tl: "update_rows snapshot ps = Inr (map (ex2_set snapshot) ps)" by simp
  show ?case
  proof (cases "ex2_where snapshot p")
    case True
    then obtain x where "spouse_subquery snapshot p = [x]" using Cons.prems by auto
    then show ?thesis using True tl by (simp add: ex2_set_def scalar_subquery_def)
  next
    case False
    then show ?thesis using tl by (simp add: ex2_set_def)
  qed
qed

lemma spouse_subquery_filter:
  "spouse_subquery people p = map Person_Id (filter (\<lambda>q. Spouse_Id q = Some (Person_Id p)) people)"
  unfolding spouse_subquery_def by (induction people) auto

lemma spouse_subquery_at_most_one:
  assumes pk: "distinct (map Person_Id people)"
    and once: "\<forall>p\<in>set people. length [q \<leftarrow> people.
        Person_Id q \<noteq> Person_Id p \<and> Spouse_Id q = Some (Person_Id p)] \<le> 1"
    and p: "p \<in> set people" "Spouse_Id p = None"
  shows "length (spouse_subquery people p) \<le> 1"
proof -
  have "filter (\<lambda>q. Spouse_Id q = Some (Person_Id p)) people =
        filter (\<lambda>q. Person_Id q \<noteq> Person_Id p \<and> Spouse_Id q = Some (Person_Id p)) people"
  proof (rule filter_cong [OF refl])
    fix q assume q: "q \<in> set people"
    show "(Spouse_Id q = Some (Person_Id p)) =
          (Person_Id q \<noteq> Person_Id p \<and> Spouse_Id q = Some (Person_Id p))"
      using person_by_id [OF pk q p(1)] p(2) by auto
  qed
  then show ?thesis
    using once p(1) by (simp add: spouse_subquery_filter)
qed

text \<open>
  Claim C9: every row the Ex1 INSERT selects with label \<^verbatim>\<open>'brother'\<close> or \<^verbatim>\<open>'sister'\<close>
  comes from a person \<open>p\<close> (the row's \<^verbatim>\<open>Person_Id\<close>) and a different relative \<open>r\<close>, where
  \<open>p\<close> has both parents non-null and shares a parent id with \<open>r\<close>, and the label is
  \<^verbatim>\<open>'brother'\<close> exactly when the gender of \<open>p\<close> is \<^verbatim>\<open>'M'\<close>: the gender of \<open>r\<close>
  plays no part. A \<^verbatim>\<open>'son'\<close> or \<^verbatim>\<open>'daughter'\<close> row takes its label from the gender of
  the relative (the child). The primary key of \<^verbatim>\<open>People\<close> makes the person of an id unique.
\<close>

theorem sibling_label_from_person_gender:
  assumes "distinct (map Person_Id people)"
    and "(a, b, t) \<in> set (ex1_select people)"
  shows "(t = ''brother'' \<or> t = ''sister'' \<longrightarrow>
           (\<exists>p\<in>set people. \<exists>r\<in>set people. Person_Id p = a \<and> Person_Id r = b \<and> a \<noteq> b \<and>
              (\<forall>q\<in>set people. Person_Id q = a \<longrightarrow> q = p) \<and>
              Father_Id p \<noteq> None \<and> Mother_Id p \<noteq> None \<and>
              (Father_Id p = Father_Id r \<or> Mother_Id p = Mother_Id r) \<and>
              t = (if Gender p = Some ''M'' then ''brother'' else ''sister'')))
       \<and> (t = ''son'' \<or> t = ''daughter'' \<longrightarrow>
           (\<exists>r\<in>set people. Person_Id r = b \<and> (Father_Id r = Some a \<or> Mother_Id r = Some a) \<and>
              (\<forall>q\<in>set people. Person_Id q = b \<longrightarrow> q = r) \<and>
              t = (if Gender r = Some ''M'' then ''son'' else ''daughter'')))"
proof (intro conjI impI)
  assume t: "t = ''brother'' \<or> t = ''sister''"
  have "(a, b, t) \<in> set (sibling_rows people)"
    using assms(2) t
    by (auto simp: ex1_select_def father_rows_iff mother_rows_iff father_child_rows_iff
        mother_child_rows_iff spouse_rows_iff child_label_cases split: if_splits)
  then obtain p r where pr: "p \<in> set people" "r \<in> set people" "Person_Id p = a" "Person_Id r = b"
      "sql_true (sibling_on p r)" "Father_Id p \<noteq> None" "Mother_Id p \<noteq> None"
      "t = (if Gender p = Some ''M'' then ''brother'' else ''sister'')"
    unfolding sibling_rows_iff by blast
  have uniq: "\<forall>q\<in>set people. Person_Id q = a \<longrightarrow> q = p"
    using person_by_id [OF assms(1)] pr(1,3) by blast
  have shared: "(Father_Id p = Father_Id r \<or> Mother_Id p = Mother_Id r) \<and> a \<noteq> b"
    using pr(3,4,5) unfolding sibling_on_iff by auto
  show "\<exists>p\<in>set people. \<exists>r\<in>set people. Person_Id p = a \<and> Person_Id r = b \<and> a \<noteq> b \<and>
      (\<forall>q\<in>set people. Person_Id q = a \<longrightarrow> q = p) \<and>
      Father_Id p \<noteq> None \<and> Mother_Id p \<noteq> None \<and>
      (Father_Id p = Father_Id r \<or> Mother_Id p = Mother_Id r) \<and>
      t = (if Gender p = Some ''M'' then ''brother'' else ''sister'')"
    using pr uniq shared by blast
next
  assume t: "t = ''son'' \<or> t = ''daughter''"
  have "(a, b, t) \<in> set (father_child_rows people) \<or> (a, b, t) \<in> set (mother_child_rows people)"
    using assms(2) t
    by (auto simp: ex1_select_def father_rows_iff mother_rows_iff sibling_rows_iff
        spouse_rows_iff split: if_splits)
  then obtain r where r: "r \<in> set people" "Person_Id r = b" "Father_Id r = Some a \<or> Mother_Id r = Some a"
      "t = child_label r"
    unfolding father_child_rows_iff mother_child_rows_iff by blast
  have uniq: "\<forall>q\<in>set people. Person_Id q = b \<longrightarrow> q = r"
    using person_by_id [OF assms(1)] r(1,2) by blast
  show "\<exists>r\<in>set people. Person_Id r = b \<and> (Father_Id r = Some a \<or> Mother_Id r = Some a) \<and>
      (\<forall>q\<in>set people. Person_Id q = b \<longrightarrow> q = r) \<and>
      t = (if Gender r = Some ''M'' then ''son'' else ''daughter'')"
    using r uniq child_label_cases by metis
qed

text \<open>The theorem at the sample data: the row of Michael (333) and Rachel (444).\<close>

theorem sibling_label_from_person_gender_witness:
  "distinct (map Person_Id sample_people) \<and>
   (333, 444, ''brother'') \<in> set (ex1_select sample_people) \<and>
   (\<exists>p\<in>set sample_people. Person_Id p = 333 \<and> Gender p = Some ''M'' \<and>
      Father_Id p \<noteq> None \<and> Mother_Id p \<noteq> None)"
proof -
  have pk: "distinct (map Person_Id sample_people)"
    by (simp add: sample_people_def mk_person_def)
  have row: "(333, 444, ''brother'') \<in> set (ex1_select sample_people)"
    using ex1_insert_Inr [OF sample_people_insert, symmetric] by simp
  from sibling_label_from_person_gender [OF pk row]
  obtain p where p: "p \<in> set sample_people" "Person_Id p = 333"
      "Father_Id p \<noteq> None" "Mother_Id p \<noteq> None"
      "''brother'' = (if Gender p = Some ''M'' then ''brother'' else ''sister'')"
    by auto
  from p(5) have "Gender p = Some ''M''"
    by (simp split: if_splits)
  with p pk row show ?thesis by blast
qed

lemma ex2_set_cases:
  assumes pk: "distinct (map Person_Id people)"
    and once: "\<forall>p\<in>set people. length [q \<leftarrow> people.
        Person_Id q \<noteq> Person_Id p \<and> Spouse_Id q = Some (Person_Id p)] \<le> 1"
    and p: "p \<in> set people"
  shows "if Spouse_Id p = None \<and> (\<exists>q\<in>set people. Spouse_Id q = Some (Person_Id p))
         then (\<exists>x. spouse_subquery people p = [x]) \<and>
              (\<exists>q\<in>set people. Spouse_Id q = Some (Person_Id p) \<and>
                 ex2_set people p = p\<lparr>Spouse_Id := Some (Person_Id q)\<rparr>)
         else \<not> ex2_where people p \<and> ex2_set people p = p"
proof (cases "Spouse_Id p = None \<and> (\<exists>q\<in>set people. Spouse_Id q = Some (Person_Id p))")
  case True
  then have ne: "spouse_subquery people p \<noteq> []"
    by (auto simp: spouse_subquery_filter filter_empty_conv)
  moreover have "length (spouse_subquery people p) \<le> 1"
    using spouse_subquery_at_most_one [OF pk once p] True by simp
  ultimately obtain x where x: "spouse_subquery people p = [x]"
    by (cases "spouse_subquery people p") auto
  then have "x \<in> set (spouse_subquery people p)" by simp
  then obtain q where q: "q \<in> set people" "Spouse_Id q = Some (Person_Id p)" "x = Person_Id q"
    by (auto simp: spouse_subquery_filter)
  have "ex2_set people p = p\<lparr>Spouse_Id := Some (Person_Id q)\<rparr>"
    using True ne x q(3) by (simp add: ex2_set_def ex2_where_def)
  with x q(1,2) show ?thesis unfolding if_P [OF True] by blast
next
  case False
  then have nw: "\<not> ex2_where people p"
    by (auto simp: ex2_where_def spouse_subquery_filter filter_empty_conv)
  then have "ex2_set people p = p" by (simp add: ex2_set_def)
  with nw show ?thesis unfolding if_not_P [OF False] by simp
qed

text \<open>
  Claim C10: on a \<^verbatim>\<open>People\<close> table (its primary key holding) in which each person is listed
  as spouse by at most one other person, the Ex2 UPDATE succeeds; every person whose
  \<^verbatim>\<open>Spouse_Id\<close> was \<^verbatim>\<open>NULL\<close> and whom some \<open>q\<close> lists as spouse gets \<open>q\<close>'s id, every
  other row is unchanged, and afterwards nobody with a \<^verbatim>\<open>NULL\<close> \<^verbatim>\<open>Spouse_Id\<close> is listed
  as a spouse.
\<close>

theorem ex2_update_completes_spouse_links:
  assumes pk: "distinct (map Person_Id people)"
    and once: "\<forall>p\<in>set people. length [q \<leftarrow> people.
        Person_Id q \<noteq> Person_Id p \<and> Spouse_Id q = Some (Person_Id p)] \<le> 1"
  shows "\<exists>people'. ex2_update people = Inr people' \<and> length people' = length people \<and>
     (\<forall>i<length people.
        if Spouse_Id (people ! i) = None \<and> (\<exists>q\<in>set people. Spouse_Id q = Some (Person_Id (people ! i)))
        then \<exists>q\<in>set people. Spouse_Id q = Some (Person_Id (people ! i)) \<and>
               people' ! i = (people ! i)\<lparr>Spouse_Id := Some (Person_Id q)\<rparr>
        else people' ! i = people ! i) \<and>
     (\<forall>p'\<in>set people'. Spouse_Id p' = None \<longrightarrow>
        (\<forall>q'\<in>set people'. Spouse_Id q' \<noteq> Some (Person_Id p')))"
proof -
  let ?people' = "map (ex2_set people) people"
  have single: "\<forall>p\<in>set people. ex2_where people p \<longrightarrow> (\<exists>x. spouse_subquery people p = [x])"
  proof (intro ballI impI)
    fix p assume p: "p \<in> set people" and w: "ex2_where people p"
    show "\<exists>x. spouse_subquery people p = [x]"
      using ex2_set_cases [OF pk once p] w by (auto split: if_splits)
  qed
  have run: "ex2_update people = Inr ?people'"
    unfolding ex2_update_def by (rule update_rows_single [OF single])
  have rows: "\<forall>i<length people.
        if Spouse_Id (people ! i) = None \<and> (\<exists>q\<in>set people. Spouse_Id q = Some (Person_Id (people ! i)))
        then \<exists>q\<in>set people. Spouse_Id q = Some (Person_Id (people ! i)) \<and>
               ?people' ! i = (people ! i)\<lparr>Spouse_Id := Some (Person_Id q)\<rparr>
        else ?people' ! i = people ! i"
  proof (intro allI impI)
    fix i assume i: "i < length people"
    then have mem: "people ! i \<in> set people" by simp
    show "if Spouse_Id (people ! i) = None \<and> (\<exists>q\<in>set people. Spouse_Id q = Some (Person_Id (people ! i)))
        then \<exists>q\<in>set people. Spouse_Id q = Some (Person_Id (people ! i)) \<and>
               ?people' ! i = (people ! i)\<lparr>Spouse_Id := Some (Person_Id q)\<rparr>
        else ?people' ! i = people ! i"
      using ex2_set_cases [OF pk once mem] i by (auto split: if_splits)
  qed
  have id: "Person_Id (ex2_set people p) = Person_Id p" for p
    by (simp add: ex2_set_def split: list.splits)
  have closed: "\<forall>p'\<in>set ?people'. Spouse_Id p' = None \<longrightarrow>
        (\<forall>q'\<in>set ?people'. Spouse_Id q' \<noteq> Some (Person_Id p'))"
  proof (intro ballI impI notI)
    fix p' q' assume p': "p' \<in> set ?people'" and none: "Spouse_Id p' = None"
      and q': "q' \<in> set ?people'" and ref: "Spouse_Id q' = Some (Person_Id p')"
    from p' obtain p where p: "p \<in> set people" "p' = ex2_set people p" by auto
    from q' obtain q where q: "q \<in> set people" "q' = ex2_set people q" by auto
    have p_none: "Spouse_Id p = None" and p_unref: "\<forall>r\<in>set people. Spouse_Id r \<noteq> Some (Person_Id p)"
      using ex2_set_cases [OF pk once p(1)] none p(2) by (auto split: if_splits)
    have pid: "Person_Id p' = Person_Id p" using p(2) id by simp
    show False
    proof (cases "Spouse_Id q = None \<and> (\<exists>r\<in>set people. Spouse_Id r = Some (Person_Id q))")
      case True
      then obtain r where r: "r \<in> set people" "Spouse_Id r = Some (Person_Id q)"
          "ex2_set people q = q\<lparr>Spouse_Id := Some (Person_Id r)\<rparr>"
        using ex2_set_cases [OF pk once q(1)] by auto
      then have "Person_Id r = Person_Id p" using ref q(2) pid by simp
      then have "r = p" using person_by_id [OF pk r(1) p(1)] by simp
      then show False using r(2) p_none by simp
    next
      case False
      then have "ex2_set people q = q" using ex2_set_cases [OF pk once q(1)] by auto
      then show False using ref q p_unref pid by auto
    qed
  qed
  show ?thesis
    using run rows closed by (intro exI [of _ ?people']) simp
qed

lemma sample_people_update:
  "ex2_update sample_people =
     Inr [mk_person 111 ''David'' ''Cohen'' ''M'' None None (Some 222),
          mk_person 222 ''Sarah'' ''Cohen'' ''F'' None None (Some 111),
          mk_person 333 ''Michael'' ''Cohen'' ''M'' (Some 111) (Some 222) None,
          mk_person 444 ''Rachel'' ''Cohen'' ''F'' (Some 111) (Some 222) None]"
  by (simp add: ex2_update_def ex2_where_def spouse_subquery_def scalar_subquery_def
      sample_people_def mk_person_def sql_defs)

text \<open>The theorem at the sample data: Sarah (222) gets David (111) as spouse.\<close>

theorem ex2_update_completes_spouse_links_witness:
  "distinct (map Person_Id sample_people) \<and>
   (\<exists>people'. ex2_update sample_people = Inr people' \<and>
      Spouse_Id (sample_people ! 1) = None \<and>
      people' ! 1 = (sample_people ! 1)\<lparr>Spouse_Id := Some 111\<rparr> \<and>
      people' ! 0 = sample_people ! 0 \<and> people' ! 2 = sample_people ! 2 \<and>
      people' ! 3 = sample_people ! 3)"
proof -
  have pk: "distinct (map Person_Id sample_people)"
    by (simp add: sample_people_def mk_person_def)
  have once: "\<forall>p\<in>set sample_people. length [q \<leftarrow> sample_people.
        Person_Id q \<noteq> Person_Id p \<and> Spouse_Id q = Some (Person_Id p)] \<le> 1"
    by (simp add: sample_people_def mk_person_def)
  obtain people' where r: "ex2_update sample_people = Inr people'"
    using ex2_update_completes_spouse_links [OF pk once] by blast
  then have "people' = [mk_person 111 ''David'' ''Cohen'' ''M'' None None (Some 222),
          mk_person 222 ''Sarah'' ''Cohen'' ''F'' None None (Some 111),
          mk_person 333 ''Michael'' ''Cohen'' ''M'' (Some 111) (Some 222) None,
          mk_person 444 ''Rachel'' ''Cohen'' ''F'' (Some 111) (Some 222) None]"
    using sample_people_update by simp
  then show ?thesis using pk r by (simp add: sample_people_def mk_person_def)
qed

end
